theory Spec2Isabelle
  imports Complex_Main
begin

section \<open>surface-sampler: the pipeline script and its collaborators\<close>

text \<open>
  The program is one straight-line script (\<^verbatim>\<open>surface-sampler.py\<close>, the body under
  \<^verbatim>\<open>if __name__ == "__main__"\<close>): it calls pygamer, pyvista, vtk, pyacvd and lightdock
  in a fixed order with literal parameters. The script is embedded as a program in a
  monad of results and an explicit world; the collaborating libraries are a record of
  functions the script is parameterised over, so every theorem holds for whatever the
  libraries compute.
\<close>

subsection \<open>Python values\<close>

text \<open>
  A Python float as \<^verbatim>\<open>argparse\<close>'s \<^verbatim>\<open>type=float\<close> produces it: every finite double is a
  real number, and \<^verbatim>\<open>float("inf")\<close>, \<^verbatim>\<open>float("-inf")\<close> and \<^verbatim>\<open>float("nan")\<close> are accepted too.
\<close>

datatype pyfloat = Finite real | PosInf | NegInf | NaN

datatype error = IndexError | OverflowError | ValueError | LibraryError string

text \<open>
  What a call does: it returns a value, raises, or never returns (the interactive viewer
  blocks until the user closes its window).
\<close>

datatype 'a result = Return 'a | Raise error | Blocked

datatype outcome = Returned | Raised error | NeverReturned

fun outcome_of :: "'a result \<Rightarrow> outcome" where
  "outcome_of (Return x) = Returned"
| "outcome_of (Raise e) = Raised e"
| "outcome_of Blocked = NeverReturned"

text \<open>\<^verbatim>\<open>int(x)\<close> on a float truncates toward zero; it raises on infinities and NaN.\<close>

definition float_trunc :: "real \<Rightarrow> int" where
  "float_trunc q = (if 0 \<le> q then \<lfloor>q\<rfloor> else \<lceil>q\<rceil>)"

fun py_int :: "pyfloat \<Rightarrow> int result" where
  "py_int (Finite q) = Return (float_trunc q)"
| "py_int PosInf = Raise OverflowError"
| "py_int NegInf = Raise OverflowError"
| "py_int NaN = Raise ValueError"

text \<open>\<^verbatim>\<open>range(a, b)\<close>: the integers from \<open>a\<close> up to \<open>b - 1\<close>, empty when \<open>b \<le> a\<close>.\<close>

definition py_range :: "int \<Rightarrow> int \<Rightarrow> int list" where
  "py_range a b = [a..b - 1]"

text \<open>
  The parsed command line, the value of \<^verbatim>\<open>parse_command_line\<close>: the three positional
  arguments \<^verbatim>\<open>molecule\<close>, \<^verbatim>\<open>distance\<close> (\<^verbatim>\<open>type=float\<close>) and \<^verbatim>\<open>points\<close> (\<^verbatim>\<open>type=int\<close>). A positional
  argument is required, so the defaults the parser declares are never used. What argparse
  accepts and rejects is argparse's; the script is a function of the three values.
\<close>

record args =
  molecule :: string
  distance :: pyfloat
  points :: int

subsection \<open>The pygamer surface mesh\<close>

text \<open>
  The script reads and writes three attributes of the mesh itself: the \<^verbatim>\<open>selected\<close> flag of
  a vertex, the \<^verbatim>\<open>marker\<close> of a face and the root metadata (\<^verbatim>\<open>ishole\<close>, \<^verbatim>\<open>marker\<close>). All other
  data of the mesh is opaque to it and has the type \<open>'g\<close>.
\<close>

record 'g Vertex =
  vertex_data :: 'g
  selected :: bool

record 'g Face =
  face_data :: 'g
  marker :: int

record Global =
  ishole :: bool
  root_marker :: int

record 'g SurfaceMesh =
  vertexIDs :: "'g Vertex list"
  faceIDs :: "'g Face list"
  getRoot :: Global
  geometry :: 'g

subsection \<open>The world: standard output, library calls, files\<close>

datatype message =
    Orientation_report int bool bool
  | Volume_report nat pyfloat
  | Iteration_report int int int int
  | Decimation_report nat nat
  | Expanding_report int

datatype field_association = FIELD_ASSOCIATION_POINTS | FIELD_ASSOCIATION_CELLS

datatype attribute_type = SCALARS | VECTORS | NORMALS | TCOORDS | TENSORS

text \<open>
  One constructor per library operation the script calls, with the literal and
  command-line arguments of the call (the mesh or object it is called on is left out).
\<close>

datatype call =
    ReadPDB_gauss string
  | Compute_orientation
  | CorrectNormals
  | SplitSurfaces
  | GetVolume
  | Smooth int bool bool
  | Coarse_dense real int
  | Coarse_flat real int
  | WriteOBJ string
  | Pv_read string
  | Decimate real bool
  | Extract_surface
  | Compute_normals
  | WarpVector_Update "(int \<times> int \<times> int \<times> field_association \<times> attribute_type) option" "real option"
  | Pv_wrap
  | Clustering_new
  | Subdivide int
  | Cluster int
  | Create_mesh
  | Plotter_new bool "nat \<times> nat"
  | Add_mesh "bool option"
  | Add_points string real bool
  | Link_views
  | Show_bounds
  | Show
  | Create_pdb_from_points string

datatype ('g, 'pt) file_content = OBJ "'g SurfaceMesh" | PDB "'pt list"

record ('g, 'pt) world =
  stdout :: "message list"
  calls :: "(call \<times> outcome) list"
  files :: "string \<rightharpoonup> ('g, 'pt) file_content"

type_synonym ('a, 'g, 'pt) prog = "('g, 'pt) world \<Rightarrow> 'a result \<times> ('g, 'pt) world"

definition ret :: "'a \<Rightarrow> ('a, 'g, 'pt) prog" where
  "ret x = (\<lambda>w. (Return x, w))"

definition lift :: "'a result \<Rightarrow> ('a, 'g, 'pt) prog" where
  "lift r = (\<lambda>w. (r, w))"

text \<open>
  Sequencing: the script has no \<^verbatim>\<open>try\<close>, so the first call that does not return ends the
  run with its outcome.
\<close>

definition bnd :: "('a, 'g, 'pt) prog \<Rightarrow> ('a \<Rightarrow> ('b, 'g, 'pt) prog) \<Rightarrow> ('b, 'g, 'pt) prog" where
  "bnd m f = (\<lambda>w. case m w of
       (Return x, w') \<Rightarrow> f x w'
     | (Raise e, w') \<Rightarrow> (Raise e, w')
     | (Blocked, w') \<Rightarrow> (Blocked, w'))"

text \<open>A call into a library: the world records the call and how it ended.\<close>

definition ext :: "call \<Rightarrow> 'a result \<Rightarrow> ('a, 'g, 'pt) prog" where
  "ext c r = (\<lambda>w. (r, w\<lparr>calls := calls w @ [(c, outcome_of r)]\<rparr>))"

definition print :: "message \<Rightarrow> (unit, 'g, 'pt) prog" where
  "print msg = (\<lambda>w. (Return (), w\<lparr>stdout := stdout w @ [msg]\<rparr>))"

definition store_file :: "string \<Rightarrow> ('g, 'pt) file_content \<Rightarrow> (unit, 'g, 'pt) prog" where
  "store_file name content = (\<lambda>w. (Return (), w\<lparr>files := (files w)(name \<mapsto> content)\<rparr>))"

definition load_file :: "string \<Rightarrow> (('g, 'pt) file_content option, 'g, 'pt) prog" where
  "load_file name = (\<lambda>w. (Return (files w name), w))"

text \<open>
  A library call that writes a file: when the call returns, the file is there with the
  content that was written.
\<close>

definition write_call :: "call \<Rightarrow> string \<Rightarrow> ('g, 'pt) file_content \<Rightarrow> unit result \<Rightarrow> (unit, 'g, 'pt) prog" where
  "write_call c name content r = bnd (ext c r) (\<lambda>_. store_file name content)"

text \<open>A \<^verbatim>\<open>for\<close> loop over a list, threading the loop's variable through the body.\<close>

primrec for_each :: "'i list \<Rightarrow> ('i \<Rightarrow> 's \<Rightarrow> ('s, 'g, 'pt) prog) \<Rightarrow> 's \<Rightarrow> ('s, 'g, 'pt) prog" where
  "for_each [] body s = ret s"
| "for_each (i # rest) body s = bnd (body i s) (for_each rest body)"

text \<open>\<^verbatim>\<open>xs[0]\<close> raises IndexError on an empty list.\<close>

definition index0 :: "'a list \<Rightarrow> ('a, 'g, 'pt) prog" where
  "index0 xs = (case xs of [] \<Rightarrow> lift (Raise IndexError) | x # _ \<Rightarrow> ret x)"

subsection \<open>The collaborating libraries\<close>

text \<open>
  The vtkWarpVector filter object as the script configures it; \<open>None\<close> is a setting the
  script has not made.
\<close>

record 'p vtkWarpVector =
  InputData :: "'p option"
  InputArrayToProcess :: "(int \<times> int \<times> int \<times> field_association \<times> attribute_type) option"
  ScaleFactor :: "real option"

definition vtkWarpVector_new :: "'p vtkWarpVector" where
  "vtkWarpVector_new = \<lparr>InputData = None, InputArrayToProcess = None, ScaleFactor = None\<rparr>"

text \<open>
  What the libraries compute is not part of this repository: \<open>'p\<close> is pyvista's PolyData,
  \<open>'c\<close> pyacvd's Clustering object, \<open>'v\<close> pyvista's Plotter, \<open>'pt\<close> a point. A method that
  mutates its object returns the object. Numeric literals passed to a library are
  reals (\<^verbatim>\<open>0.97\<close> is \<open>97 / 100\<close>).
\<close>

record ('g, 'p, 'c, 'v, 'pt) library =
  readPDB_gauss :: "string \<Rightarrow> 'g SurfaceMesh result"
  compute_orientation :: "'g SurfaceMesh \<Rightarrow> ((int \<times> bool \<times> bool) \<times> 'g SurfaceMesh) result"
  correctNormals :: "'g SurfaceMesh \<Rightarrow> 'g SurfaceMesh result"
  splitSurfaces :: "'g SurfaceMesh \<Rightarrow> 'g SurfaceMesh list result"
  getVolume :: "'g SurfaceMesh \<Rightarrow> pyfloat result"
  smooth :: "int \<Rightarrow> bool \<Rightarrow> bool \<Rightarrow> 'g SurfaceMesh \<Rightarrow> 'g SurfaceMesh result"
  coarse_dense :: "real \<Rightarrow> int \<Rightarrow> 'g SurfaceMesh \<Rightarrow> 'g SurfaceMesh result"
  coarse_flat :: "real \<Rightarrow> int \<Rightarrow> 'g SurfaceMesh \<Rightarrow> 'g SurfaceMesh result"
  nVertices :: "'g SurfaceMesh \<Rightarrow> int"
  nEdges :: "'g SurfaceMesh \<Rightarrow> int"
  nFaces :: "'g SurfaceMesh \<Rightarrow> int"
  writeOBJ :: "string \<Rightarrow> 'g SurfaceMesh \<Rightarrow> unit result"
  pv_read :: "string \<Rightarrow> ('g, 'pt) file_content option \<Rightarrow> 'p result"
  decimate :: "real \<Rightarrow> bool \<Rightarrow> 'p \<Rightarrow> 'p result"
  extract_surface :: "'p \<Rightarrow> 'p result"
  pv_points :: "'p \<Rightarrow> 'pt list"
  compute_normals :: "'p \<Rightarrow> 'p result"
  vtkWarpVector_Update :: "'p vtkWarpVector \<Rightarrow> 'p result"
  pv_wrap :: "'p \<Rightarrow> 'p result"
  Clustering :: "'p \<Rightarrow> 'c result"
  subdivide :: "int \<Rightarrow> 'c \<Rightarrow> 'c result"
  cluster :: "int \<Rightarrow> 'c \<Rightarrow> 'c result"
  create_mesh :: "'c \<Rightarrow> 'p result"
  Plotter :: "bool \<Rightarrow> nat \<times> nat \<Rightarrow> 'v result"
  add_mesh :: "'p \<Rightarrow> bool option \<Rightarrow> 'v \<Rightarrow> 'v result"
  add_points :: "'pt list \<Rightarrow> string \<Rightarrow> real \<Rightarrow> bool \<Rightarrow> 'v \<Rightarrow> 'v result"
  link_views :: "'v \<Rightarrow> 'v result"
  show_bounds :: "'v \<Rightarrow> 'v result"
  show_window :: "'v \<Rightarrow> unit result"
  create_pdb_from_points :: "string \<Rightarrow> 'pt list \<Rightarrow> unit result"
  path_stem :: "string \<Rightarrow> string"

subsection \<open>The script\<close>

text \<open>
  Lines 28--41: mesh the molecule, report its orientation, split it into connected
  components, print every component's volume and keep \<^verbatim>\<open>meshes[0]\<close>.
\<close>

definition print_volumes :: "('g, 'p, 'c, 'v, 'pt) library \<Rightarrow> 'g SurfaceMesh list \<Rightarrow> (unit, 'g, 'pt) prog" where
  "print_volumes L meshes =
     for_each (enumerate 0 meshes)
       (\<lambda>(i, m) _. bnd (ext GetVolume (getVolume L m)) (\<lambda>vol. print (Volume_report i vol))) ()"

definition select_component :: "('g, 'p, 'c, 'v, 'pt) library \<Rightarrow> 'g SurfaceMesh list \<Rightarrow> ('g SurfaceMesh, 'g, 'pt) prog" where
  "select_component L meshes = bnd (print_volumes L meshes) (\<lambda>_. index0 meshes)"

definition surface_construction :: "('g, 'p, 'c, 'v, 'pt) library \<Rightarrow> args \<Rightarrow> ('g SurfaceMesh, 'g, 'pt) prog" where
  "surface_construction L a =
     bnd (ext (ReadPDB_gauss (molecule a)) (readPDB_gauss L (molecule a))) (\<lambda>mesh.
     bnd (ext Compute_orientation (compute_orientation L mesh)) (\<lambda>((components, orientable, manifold), mesh).
     bnd (ext CorrectNormals (correctNormals L mesh)) (\<lambda>mesh.
     bnd (print (Orientation_report components orientable manifold)) (\<lambda>_.
     bnd (ext SplitSurfaces (splitSurfaces L mesh)) (\<lambda>meshes.
     select_component L meshes)))))"

text \<open>
  Lines 43--46: set \<^verbatim>\<open>selected\<close> on every vertex, then one call of \<^verbatim>\<open>smooth\<close> (the call
  stands after the loop over the vertices, not in it).
\<close>

definition select_all_vertices :: "'g SurfaceMesh \<Rightarrow> 'g SurfaceMesh" where
  "select_all_vertices mesh = mesh\<lparr>vertexIDs := map (\<lambda>v. v\<lparr>selected := True\<rparr>) (vertexIDs mesh)\<rparr>"

definition initial_smoothing :: "('g, 'p, 'c, 'v, 'pt) library \<Rightarrow> 'g SurfaceMesh \<Rightarrow> ('g SurfaceMesh, 'g, 'pt) prog" where
  "initial_smoothing L mesh =
     ext (Smooth 5 False True) (smooth L 5 False True (select_all_vertices mesh))"

text \<open>Lines 48--54: the refinement loop, \<^verbatim>\<open>for i in range(5)\<close>.\<close>

definition refinement_round :: "('g, 'p, 'c, 'v, 'pt) library \<Rightarrow> int \<Rightarrow> 'g SurfaceMesh \<Rightarrow> ('g SurfaceMesh, 'g, 'pt) prog" where
  "refinement_round L i mesh =
     bnd (ext (Coarse_dense 2 3) (coarse_dense L 2 3 mesh)) (\<lambda>mesh.
     bnd (ext (Coarse_flat (1 / 10) 3) (coarse_flat L (1 / 10) 3 mesh)) (\<lambda>mesh.
     bnd (ext (Smooth 3 True False) (smooth L 3 True False mesh)) (\<lambda>mesh.
     bnd (print (Iteration_report (i + 1) (nVertices L mesh) (nEdges L mesh) (nFaces L mesh))) (\<lambda>_.
     ret mesh))))"

definition refinement_loop :: "('g, 'p, 'c, 'v, 'pt) library \<Rightarrow> 'g SurfaceMesh \<Rightarrow> ('g SurfaceMesh, 'g, 'pt) prog" where
  "refinement_loop L mesh = for_each (py_range 0 5) (refinement_round L) mesh"

text \<open>
  Lines 61--71: mark every face with 23, set the root metadata, write the mesh to
  \<^verbatim>\<open>f'{path.stem}.obj'\<close>.
\<close>

definition mark_faces :: "'g SurfaceMesh \<Rightarrow> 'g SurfaceMesh" where
  "mark_faces mesh = mesh\<lparr>faceIDs := map (\<lambda>f. f\<lparr>marker := 23\<rparr>) (faceIDs mesh)\<rparr>"

definition set_root :: "'g SurfaceMesh \<Rightarrow> 'g SurfaceMesh" where
  "set_root mesh = mesh\<lparr>getRoot := (getRoot mesh)\<lparr>ishole := True, root_marker := - 1\<rparr>\<rparr>"

definition export_obj :: "('g, 'p, 'c, 'v, 'pt) library \<Rightarrow> args \<Rightarrow> 'g SurfaceMesh \<Rightarrow> (string, 'g, 'pt) prog" where
  "export_obj L a mesh =
     (let mesh = set_root (mark_faces mesh);
          obj_name = path_stem L (molecule a) @ ''.obj''
      in bnd (write_call (WriteOBJ obj_name) obj_name (OBJ mesh) (writeOBJ L obj_name mesh)) (\<lambda>_.
         ret obj_name))"

text \<open>Lines 74--76: read the file back with pyvista and decimate it.\<close>

definition decimation :: "('g, 'p, 'c, 'v, 'pt) library \<Rightarrow> string \<Rightarrow> ('p, 'g, 'pt) prog" where
  "decimation L obj_name =
     bnd (load_file obj_name) (\<lambda>content.
     bnd (ext (Pv_read obj_name) (pv_read L obj_name content)) (\<lambda>mesh.
     bnd (ext (Decimate (97 / 100) True) (decimate L (97 / 100) True mesh)) (\<lambda>decimated.
     bnd (ext Extract_surface (extract_surface L decimated)) (\<lambda>shell.
     bnd (print (Decimation_report (length (pv_points L mesh)) (length (pv_points L shell)))) (\<lambda>_.
     ret shell)))))"

text \<open>
  Lines 79--89: the expansion loop, \<^verbatim>\<open>for i in range(1,int(args.distance)+1)\<close>. The body
  prints, recomputes the normals, configures a fresh vtkWarpVector on the shell with the
  point normals as its vectors and the scale factor 2, runs it (\<^verbatim>\<open>Update\<close>, then
  \<^verbatim>\<open>GetOutput\<close>) and wraps its output. The range is computed once, before the first run of
  the body.
\<close>

definition expansion_step :: "('g, 'p, 'c, 'v, 'pt) library \<Rightarrow> int \<Rightarrow> 'p \<Rightarrow> ('p, 'g, 'pt) prog" where
  "expansion_step L i shell =
     bnd (print (Expanding_report i)) (\<lambda>_.
     bnd (ext Compute_normals (compute_normals L shell)) (\<lambda>shell.
     (let warp = vtkWarpVector_new;
          warp = warp\<lparr>InputData := Some shell\<rparr>;
          warp = warp\<lparr>InputArrayToProcess := Some (0, 0, 0, FIELD_ASSOCIATION_POINTS, NORMALS)\<rparr>;
          warp = warp\<lparr>ScaleFactor := Some 2\<rparr>
      in bnd (ext (WarpVector_Update (InputArrayToProcess warp) (ScaleFactor warp)) (vtkWarpVector_Update L warp)) (\<lambda>output.
         ext Pv_wrap (pv_wrap L output)))))"

definition expansion :: "('g, 'p, 'c, 'v, 'pt) library \<Rightarrow> pyfloat \<Rightarrow> 'p \<Rightarrow> ('p, 'g, 'pt) prog" where
  "expansion L d shell =
     bnd (lift (py_int d)) (\<lambda>n. for_each (py_range 1 (n + 1)) (expansion_step L) shell)"

text \<open>Lines 91--95: subdivide, cluster, create the mesh of the clusters.\<close>

definition resampling :: "('g, 'p, 'c, 'v, 'pt) library \<Rightarrow> int \<Rightarrow> 'p \<Rightarrow> ('p \<times> 'p, 'g, 'pt) prog" where
  "resampling L npoints shell =
     bnd (ext Extract_surface (extract_surface L shell)) (\<lambda>expanded_mesh.
     bnd (ext Clustering_new (Clustering L expanded_mesh)) (\<lambda>clus.
     bnd (ext (Subdivide 3) (subdivide L 3 clus)) (\<lambda>clus.
     bnd (ext (Cluster npoints) (cluster L npoints clus)) (\<lambda>clus.
     bnd (ext Create_mesh (create_mesh L clus)) (\<lambda>created.
     bnd (ext Extract_surface (extract_surface L created)) (\<lambda>shell.
     ret (expanded_mesh, shell)))))))"

text \<open>Lines 97--105: the interactive viewer; \<^verbatim>\<open>p.show()\<close> blocks.\<close>

definition visualization :: "('g, 'p, 'c, 'v, 'pt) library \<Rightarrow> 'p \<Rightarrow> 'p \<Rightarrow> (unit, 'g, 'pt) prog" where
  "visualization L expanded_mesh shell =
     (let uniform = shell
      in bnd (ext (Plotter_new False (1, 1)) (Plotter L False (1, 1))) (\<lambda>p.
         bnd (ext (Add_mesh None) (add_mesh L shell None p)) (\<lambda>p.
         bnd (ext (Add_points ''r'' 8 True) (add_points L (pv_points L uniform) ''r'' 8 True p)) (\<lambda>p.
         bnd (ext (Add_mesh (Some True)) (add_mesh L expanded_mesh (Some True) p)) (\<lambda>p.
         bnd (ext Link_views (link_views L p)) (\<lambda>p.
         bnd (ext Show_bounds (show_bounds L p)) (\<lambda>p.
         ext Show (show_window L p))))))))"

text \<open>Line 107: \<^verbatim>\<open>create_pdb_from_points(f'{path.stem}_swarms.pdb', uniform.points)\<close>.\<close>

definition write_swarms :: "('g, 'p, 'c, 'v, 'pt) library \<Rightarrow> args \<Rightarrow> 'p \<Rightarrow> (unit, 'g, 'pt) prog" where
  "write_swarms L a uniform =
     (let name = path_stem L (molecule a) @ ''_swarms.pdb''
      in write_call (Create_pdb_from_points name) name (PDB (pv_points L uniform))
           (create_pdb_from_points L name (pv_points L uniform)))"

text \<open>The whole script, from the parsed arguments.\<close>

definition main :: "('g, 'p, 'c, 'v, 'pt) library \<Rightarrow> args \<Rightarrow> (unit, 'g, 'pt) prog" where
  "main L a =
     bnd (surface_construction L a) (\<lambda>mesh.
     bnd (initial_smoothing L mesh) (\<lambda>mesh.
     bnd (refinement_loop L mesh) (\<lambda>mesh.
     bnd (export_obj L a mesh) (\<lambda>obj_name.
     bnd (decimation L obj_name) (\<lambda>shell.
     bnd (expansion L (distance a) shell) (\<lambda>shell.
     bnd (resampling L (points a) shell) (\<lambda>(expanded_mesh, shell).
     bnd (visualization L expanded_mesh shell) (\<lambda>_.
     write_swarms L a shell))))))))"

subsection \<open>A sample environment\<close>

text \<open>
  A small concrete instance of the libraries, on which the script can be run: points on
  a line (a coordinate each), every normal the unit vector \<open>+1\<close>, the warp adds
  the scale factor times the normal, clustering keeps the first \<open>n\<close> points. The molecule
  has two components, the first reported one the smaller.
\<close>

definition sample_mesh :: "real list \<Rightarrow> real SurfaceMesh" where
  "sample_mesh xs =
     \<lparr>vertexIDs = map (\<lambda>x. \<lparr>vertex_data = x, selected = False\<rparr>) xs,
      faceIDs = map (\<lambda>x. \<lparr>face_data = x, marker = 0\<rparr>) xs,
      getRoot = \<lparr>ishole = False, root_marker = 0\<rparr>,
      geometry = 0\<rparr>"

text \<open>
  The sample environment's \<^verbatim>\<open>Path(p).stem\<close>, for a POSIX path: the last component that is
  neither empty nor \<^verbatim>\<open>.\<close>, up to its last dot when that dot is neither its first nor its
  last character. The theorems below hold for any function \<open>path_stem\<close>.
\<close>

fun split_slash :: "string \<Rightarrow> string \<Rightarrow> string list" where
  "split_slash acc [] = [rev acc]"
| "split_slash acc (c # cs) =
     (if c = CHR ''/'' then rev acc # split_slash [] cs else split_slash (c # acc) cs)"

definition path_name :: "string \<Rightarrow> string" where
  "path_name p =
     (let parts = filter (\<lambda>s. s \<noteq> [] \<and> s \<noteq> ''.'') (split_slash [] p)
      in if parts = [] then [] else last parts)"

definition posix_stem :: "string \<Rightarrow> string" where
  "posix_stem p =
     (let name = path_name p;
          after = takeWhile (\<lambda>c. c \<noteq> CHR ''.'') (rev name)
      in if length after < length name \<and> 0 < length after \<and> length after + 1 < length name
         then take (length name - length after - 1) name
         else name)"

definition sample_library :: "(real, real list, real list, nat, real) library" where
  "sample_library =
     \<lparr>readPDB_gauss = (\<lambda>path. Return (sample_mesh [1, 10, 11, 12])),
      compute_orientation = (\<lambda>m. Return ((2, True, True), m)),
      correctNormals = Return,
      splitSurfaces = (\<lambda>m. Return
         [m\<lparr>vertexIDs := take 1 (vertexIDs m), faceIDs := take 1 (faceIDs m)\<rparr>,
          m\<lparr>vertexIDs := drop 1 (vertexIDs m), faceIDs := drop 1 (faceIDs m)\<rparr>]),
      getVolume = (\<lambda>m. Return (Finite (of_nat (length (vertexIDs m))))),
      smooth = (\<lambda>max_iter preserve_ridges verbose. Return),
      coarse_dense = (\<lambda>rate numiter. Return),
      coarse_flat = (\<lambda>rate numiter. Return),
      nVertices = (\<lambda>m. int (length (vertexIDs m))),
      nEdges = (\<lambda>m. int (length (vertexIDs m))),
      nFaces = (\<lambda>m. int (length (faceIDs m))),
      writeOBJ = (\<lambda>name m. Return ()),
      pv_read = (\<lambda>name content. case content of
           Some (OBJ m) \<Rightarrow> Return (map vertex_data (vertexIDs m))
         | _ \<Rightarrow> Raise (LibraryError ''FileNotFoundError'')),
      decimate = (\<lambda>target volume_preservation. Return),
      extract_surface = Return,
      pv_points = (\<lambda>ps. ps),
      compute_normals = Return,
      vtkWarpVector_Update = (\<lambda>warp. case (InputData warp, ScaleFactor warp) of
           (Some ps, Some k) \<Rightarrow> Return (map (\<lambda>x. x + k * 1) ps)
         | _ \<Rightarrow> Raise (LibraryError ''no input'')),
      pv_wrap = Return,
      Clustering = Return,
      subdivide = (\<lambda>n. Return),
      cluster = (\<lambda>n ps. Return (take (nat n) ps)),
      create_mesh = Return,
      Plotter = (\<lambda>notebook shape. Return 0),
      add_mesh = (\<lambda>m smooth_shading p. Return (Suc p)),
      add_points = (\<lambda>ps color point_size spheres p. Return (Suc p)),
      link_views = Return,
      show_bounds = Return,
      show_window = (\<lambda>p. Return ()),
      create_pdb_from_points = (\<lambda>name ps. Return ()),
      path_stem = posix_stem\<rparr>"

definition empty_world :: "(real, real) world" where
  "empty_world = \<lparr>stdout = [], calls = [], files = Map.empty\<rparr>"

definition sample_args :: "real \<Rightarrow> args" where
  "sample_args d = \<lparr>molecule = ''data/1abc.pdb'', distance = Finite d, points = 1\<rparr>"
subsection \<open>The displacement of the points of a surface\<close>

text \<open>
  What moves the points in an expansion iteration is vtk, not the script. The behaviour
  the script relies on is stated here as a condition on the libraries, for a reading
  \<open>pos\<close> of the points of a surface and a reading \<open>nrm\<close> of its point normals, both in a
  normed vector space: \<^verbatim>\<open>compute_normals\<close> keeps the points and gives every point a normal
  of length 1; the warp filter, set to the point normals, returns every point of its
  input moved by the scale factor times the normal of that point; \<^verbatim>\<open>pv.wrap\<close> keeps the
  points.
\<close>

definition warps_along_normals ::
  "('g, 'p, 'c, 'v, 'pt) library \<Rightarrow> ('p \<Rightarrow> 'x::real_normed_vector list) \<Rightarrow> ('p \<Rightarrow> 'x list) \<Rightarrow> bool" where
  "warps_along_normals L pos nrm \<longleftrightarrow>
     (\<forall>s s'. compute_normals L s = Return s' \<longrightarrow>
        pos s' = pos s \<and> length (nrm s') = length (pos s) \<and> list_all (\<lambda>n. norm n = 1) (nrm s')) \<and>
     (\<forall>s k out. vtkWarpVector_Update L \<lparr>InputData = Some s,
          InputArrayToProcess = Some (0, 0, 0, FIELD_ASSOCIATION_POINTS, NORMALS),
          ScaleFactor = Some k\<rparr> = Return out \<longrightarrow>
        pos out = map2 (\<lambda>p n. p + k *\<^sub>R n) (pos s) (nrm s)) \<and>
     (\<forall>out s. pv_wrap L out = Return s \<longrightarrow> pos s = pos out)"

text \<open>
  Surface \<open>s'\<close> has the points of surface \<open>s\<close>, each at distance \<open>k\<close> from where it was.
\<close>

definition moved :: "('p \<Rightarrow> 'x::real_normed_vector list) \<Rightarrow> real \<Rightarrow> 'p \<Rightarrow> 'p \<Rightarrow> bool" where
  "moved pos k s s' \<longleftrightarrow> list_all2 (\<lambda>p q. dist p q = k) (pos s) (pos s')"

text \<open>
  The length of the path of point number \<open>j\<close> through a sequence of surfaces: the sum of
  the distances between its positions in consecutive surfaces.
\<close>

fun travelled :: "('p \<Rightarrow> 'x::real_normed_vector list) \<Rightarrow> 'p list \<Rightarrow> nat \<Rightarrow> real" where
  "travelled pos (s # s' # rest) j = dist (pos s ! j) (pos s' ! j) + travelled pos (s' # rest) j"
| "travelled pos rest j = 0"


subsection \<open>Reading the log of calls\<close>


text \<open>The arguments of the \<^verbatim>\<open>decimate\<close> calls in a log, in order.\<close>

definition decimations :: "(call \<times> outcome) list \<Rightarrow> (real \<times> bool) list" where
  "decimations cs =
     concat (map (\<lambda>(c, oc). case c of Decimate target vp \<Rightarrow> [(target, vp)] | _ \<Rightarrow> []) cs)"

text \<open>The file names of the \<^verbatim>\<open>create_pdb_from_points\<close> calls in a log, in order.\<close>

definition written_pdbs :: "(call \<times> outcome) list \<Rightarrow> string list" where
  "written_pdbs cs =
     concat (map (\<lambda>(c, oc). case c of Create_pdb_from_points name \<Rightarrow> [name] | _ \<Rightarrow> []) cs)"

text \<open>
  Every \<^verbatim>\<open>create_pdb_from_points\<close> call of a log comes after a \<^verbatim>\<open>show\<close> call that has
  returned; \<open>shown\<close> says whether one came before the log.
\<close>

fun written_after_show :: "bool \<Rightarrow> (call \<times> outcome) list \<Rightarrow> bool" where
  "written_after_show shown [] = True"
| "written_after_show shown ((c, oc) # cs) =
     ((case c of Create_pdb_from_points name \<Rightarrow> shown | _ \<Rightarrow> True) \<and>
      written_after_show (shown \<or> (c = Show \<and> oc = Returned)) cs)"

text \<open>
  No failure is caught: every call of a log but the last has returned, and the last has
  either returned or ended as the whole run \<open>oc\<close> did.
\<close>

fun uncaught :: "outcome \<Rightarrow> (call \<times> outcome) list \<Rightarrow> bool" where
  "uncaught oc [] = True"
| "uncaught oc [(c, oc')] = (oc' = Returned \<or> oc' = oc)"
| "uncaught oc ((c, oc') # cs) = (oc' = Returned \<and> uncaught oc cs)"

text \<open>The names of the files that the write calls of a log have written.\<close>

definition written_files :: "(call \<times> outcome) list \<Rightarrow> string list" where
  "written_files cs =
     concat (map (\<lambda>(c, oc). if oc = Returned
        then (case c of WriteOBJ name \<Rightarrow> [name] | Create_pdb_from_points name \<Rightarrow> [name] | _ \<Rightarrow> [])
        else []) cs)"

text \<open>
  What a program adds to the log of calls: \<open>logs Q m\<close> when every run of \<open>m\<close>, from any
  world, appends to the log a list of calls that \<open>Q\<close> accepts for the run's outcome, and
  changes no file but those that the write calls of this list have written.
\<close>

definition logs :: "(outcome \<Rightarrow> (call \<times> outcome) list \<Rightarrow> bool) \<Rightarrow> ('a, 'g, 'pt) prog \<Rightarrow> bool" where
  "logs Q m = (\<forall>w. case m w of (r, w') \<Rightarrow>
     \<exists>cs. calls w' = calls w @ cs \<and> Q (outcome_of r) cs \<and>
       (\<forall>name. name \<notin> set (written_files cs) \<longrightarrow> files w' name = files w name))"

definition composable :: "(outcome \<Rightarrow> (call \<times> outcome) list \<Rightarrow> bool) \<Rightarrow> bool" where
  "composable Q = ((\<forall>oc. Q oc []) \<and>
     (\<forall>cs1 oc cs2. Q Returned cs1 \<longrightarrow> Q oc cs2 \<longrightarrow> Q oc (cs1 @ cs2)))"

text \<open>
  The calls of a run of the script that returns (lemma \<open>main_Return_calls\<close> below), for a
  molecule of \<open>k + 1\<close> components and \<open>n\<close> expansion iterations.
\<close>

definition returning_calls :: "args \<Rightarrow> string \<Rightarrow> nat \<Rightarrow> nat \<Rightarrow> (call \<times> outcome) list" where
  "returning_calls a stem k n =
     [(ReadPDB_gauss (molecule a), Returned), (Compute_orientation, Returned),
      (CorrectNormals, Returned), (SplitSurfaces, Returned)]
     @ replicate (Suc k) (GetVolume, Returned)
     @ [(Smooth 5 False True, Returned)]
     @ concat (replicate 5 [(Coarse_dense 2 3, Returned), (Coarse_flat (1 / 10) 3, Returned),
         (Smooth 3 True False, Returned)])
     @ [(WriteOBJ (stem @ ''.obj''), Returned), (Pv_read (stem @ ''.obj''), Returned),
        (Decimate (97 / 100) True, Returned), (Extract_surface, Returned)]
     @ concat (replicate n [(Compute_normals, Returned),
         (WarpVector_Update (Some (0, 0, 0, FIELD_ASSOCIATION_POINTS, NORMALS)) (Some 2), Returned),
         (Pv_wrap, Returned)])
     @ [(Extract_surface, Returned), (Clustering_new, Returned), (Subdivide 3, Returned),
        (Cluster (points a), Returned), (Create_mesh, Returned), (Extract_surface, Returned),
        (Plotter_new False (1, 1), Returned), (Add_mesh None, Returned),
        (Add_points ''r'' 8 True, Returned), (Add_mesh (Some True), Returned),
        (Link_views, Returned), (Show_bounds, Returned), (Show, Returned),
        (Create_pdb_from_points (stem @ ''_swarms.pdb''), Returned)]"

section \<open>Basic facts about programs\<close>

lemmas prog_defs = ret_def lift_def bnd_def ext_def print_def store_file_def load_file_def index0_def
  write_call_def

lemma bnd_Return_iff:
  "bnd m f w = (Return y, w') \<longleftrightarrow> (\<exists>x w1. m w = (Return x, w1) \<and> f x w1 = (Return y, w'))"
  by (auto simp: bnd_def split: prod.splits result.splits)

lemma ext_Return_iff:
  "ext c r w = (Return x, w') \<longleftrightarrow> r = Return x \<and> w' = w\<lparr>calls := calls w @ [(c, Returned)]\<rparr>"
  by (cases r) (auto simp: ext_def)

lemma print_iff:
  "print msg w = (r, w') \<longleftrightarrow> r = Return () \<and> w' = w\<lparr>stdout := stdout w @ [msg]\<rparr>"
  by (auto simp: print_def)

lemma ret_iff: "ret x w = (r, w') \<longleftrightarrow> r = Return x \<and> w' = w"
  by (auto simp: ret_def)

lemma lift_iff: "lift r0 w = (r, w') \<longleftrightarrow> r = r0 \<and> w' = w"
  by (auto simp: lift_def)

lemma store_file_iff:
  "store_file name content w = (r, w') \<longleftrightarrow>
     r = Return () \<and> w' = w\<lparr>files := (files w)(name \<mapsto> content)\<rparr>"
  by (auto simp: store_file_def)

lemma load_file_iff:
  "load_file name w = (r, w') \<longleftrightarrow> r = Return (files w name) \<and> w' = w"
  by (auto simp: load_file_def)

lemma write_call_Return_iff:
  "write_call c name content r w = (Return x, w') \<longleftrightarrow>
     r = Return () \<and>
     w' = w\<lparr>calls := calls w @ [(c, Returned)], files := (files w)(name \<mapsto> content)\<rparr>"
  by (cases r) (auto simp: write_call_def bnd_def ext_def store_file_def)

text \<open>
  A loop whose body, when it returns, prints one message, issues the calls \<open>K\<close> and leaves
  the files alone: a loop that returns has done so once per element.
\<close>

lemma for_each_Return_log:
  assumes step: "\<And>i s w s' w'. body i s w = (Return s', w') \<Longrightarrow>
      stdout w' = stdout w @ [msg i s'] \<and> calls w' = calls w @ K \<and> files w' = files w"
  shows "for_each xs body s w = (Return s', w') \<Longrightarrow>
      length (stdout w') = length (stdout w) + length xs \<and>
      calls w' = calls w @ concat (replicate (length xs) K) \<and> files w' = files w"
proof (induction xs arbitrary: s w)
  case Nil
  then show ?case by (simp add: ret_iff)
next
  case (Cons i xs)
  from Cons.prems obtain s1 w1 where
    a: "body i s w = (Return s1, w1)" and b: "for_each xs body s1 w1 = (Return s', w')"
    by (auto simp: bnd_Return_iff)
  from step[OF a] Cons.IH[OF b] show ?case by simp
qed

lemma for_each_Return_stdout:
  assumes step: "\<And>i s w s' w'. body i s w = (Return s', w') \<Longrightarrow> stdout w' = stdout w @ [msg i]"
  shows "for_each xs body s w = (Return s', w') \<Longrightarrow> stdout w' = stdout w @ map msg xs"
proof (induction xs arbitrary: s w)
  case Nil
  then show ?case by (simp add: ret_iff)
next
  case (Cons i xs)
  from Cons.prems obtain s1 w1 where
    a: "body i s w = (Return s1, w1)" and b: "for_each xs body s1 w1 = (Return s', w')"
    by (auto simp: bnd_Return_iff)
  from step[OF a] Cons.IH[OF b] show ?case by simp
qed

section \<open>The expansion loop\<close>

lemma float_trunc_nonneg: "0 \<le> d \<Longrightarrow> float_trunc d = \<lfloor>d\<rfloor>"
  by (simp add: float_trunc_def)

lemma expansion_empty:
  "float_trunc d \<le> 0 \<Longrightarrow> expansion L (Finite d) shell w = (Return shell, w)"
  by (simp add: expansion_def py_range_def prog_defs)

lemma expansion_step_Return:
  assumes "expansion_step L i shell w = (Return shell', w')"
  shows "stdout w' = stdout w @ [Expanding_report i] \<and>
     calls w' = calls w @ [(Compute_normals, Returned),
        (WarpVector_Update (Some (0, 0, 0, FIELD_ASSOCIATION_POINTS, NORMALS)) (Some 2), Returned),
        (Pv_wrap, Returned)] \<and> files w' = files w"
  using assms
  by (auto simp: expansion_step_def vtkWarpVector_new_def bnd_Return_iff ext_Return_iff print_iff)

lemma expansion_Return_loop:
  assumes "expansion L (Finite d) shell w = (Return shell', w')"
  shows "for_each [1..float_trunc d] (expansion_step L) shell w = (Return shell', w')"
  using assms by (simp add: expansion_def bnd_Return_iff lift_iff py_range_def)

lemma expansion_Return:
  assumes "expansion L (Finite d) shell w = (Return shell', w')"
  shows "stdout w' = stdout w @ map Expanding_report [1..float_trunc d] \<and>
     calls w' = calls w @ concat (replicate (nat (float_trunc d)) [(Compute_normals, Returned),
        (WarpVector_Update (Some (0, 0, 0, FIELD_ASSOCIATION_POINTS, NORMALS)) (Some 2), Returned),
        (Pv_wrap, Returned)]) \<and> files w' = files w"
proof -
  note loop = expansion_Return_loop[OF assms]
  have "stdout w' = stdout w @ map Expanding_report [1..float_trunc d]"
    by (rule for_each_Return_stdout[where body = "expansion_step L", OF _ loop])
      (simp add: expansion_step_Return)
  moreover have "calls w' = calls w @ concat (replicate (length [1..float_trunc d])
        [(Compute_normals, Returned),
         (WarpVector_Update (Some (0, 0, 0, FIELD_ASSOCIATION_POINTS, NORMALS)) (Some 2), Returned),
         (Pv_wrap, Returned)]) \<and> files w' = files w"
  proof -
    have step: "\<And>i s w s' w'. expansion_step L i s w = (Return s', w') \<Longrightarrow>
        stdout w' = stdout w @ [(\<lambda>i s. Expanding_report i) i s'] \<and>
        calls w' = calls w @ [(Compute_normals, Returned),
          (WarpVector_Update (Some (0, 0, 0, FIELD_ASSOCIATION_POINTS, NORMALS)) (Some 2), Returned),
          (Pv_wrap, Returned)] \<and> files w' = files w"
      by (simp add: expansion_step_Return)
    from for_each_Return_log[of "expansion_step L", OF step loop] show ?thesis
      by simp
  qed
  ultimately show ?thesis by simp
qed

lemmas sample_defs = sample_library_def sample_args_def empty_world_def sample_mesh_def

lemmas expansion_defs = expansion_def expansion_step_def py_range_def float_trunc_def
  vtkWarpVector_new_def

lemma sample_expansion_3:
  "expansion sample_library (Finite 3) [1] empty_world =
     (Return [7], empty_world\<lparr>stdout := [Expanding_report 1, Expanding_report 2, Expanding_report 3],
        calls := concat (replicate 3 [(Compute_normals, Returned),
          (WarpVector_Update (Some (0, 0, 0, FIELD_ASSOCIATION_POINTS, NORMALS)) (Some 2), Returned),
          (Pv_wrap, Returned)])\<rparr>)"
  by (simp add: expansion_defs prog_defs sample_library_def empty_world_def upto_rec1 numeral_3_eq_3)

text \<open>
  C1 (as amended). The loop \<^verbatim>\<open>for i in range(1,int(args.distance)+1)\<close> runs
  \<^verbatim>\<open>int(distance)\<close> times, that is \<open>\<lfloor>distance\<rfloor>\<close> times for a distance that is not negative:
  with a truncated distance of at most 0 the expansion returns the shell it was given and
  changes nothing in the world; an expansion that returns has printed exactly the messages
  \<^verbatim>\<open>Expanding: 1\<close> up to \<^verbatim>\<open>Expanding: int(distance)\<close>, one at the start of each run of the body.
  For an infinite distance or NaN, \<^verbatim>\<open>int\<close> raises and the loop is not entered.
\<close>

theorem expansion_iterations:
  "(float_trunc d \<le> 0 \<longrightarrow> expansion L (Finite d) shell w = (Return shell, w)) \<and>
   (expansion L (Finite d) shell w = (Return shell', w') \<longrightarrow>
      stdout w' = stdout w @ map Expanding_report [1..float_trunc d] \<and>
      length (stdout w') = length (stdout w) + nat (float_trunc d)) \<and>
   (0 \<le> d \<longrightarrow> float_trunc d = \<lfloor>d\<rfloor>) \<and>
   expansion L PosInf shell w = (Raise OverflowError, w) \<and>
   expansion L NegInf shell w = (Raise OverflowError, w) \<and>
   expansion L NaN shell w = (Raise ValueError, w)"
proof (intro conjI impI)
  assume "float_trunc d \<le> 0"
  then show "expansion L (Finite d) shell w = (Return shell, w)"
    by (rule expansion_empty)
next
  assume run: "expansion L (Finite d) shell w = (Return shell', w')"
  from expansion_Return[OF run]
  show out: "stdout w' = stdout w @ map Expanding_report [1..float_trunc d]"
    by simp
  show "length (stdout w') = length (stdout w) + nat (float_trunc d)"
    by (simp add: out)
next
  assume "0 \<le> d"
  then show "float_trunc d = \<lfloor>d\<rfloor>"
    by (rule float_trunc_nonneg)
qed (simp_all add: expansion_def bnd_def lift_def)

text \<open>
  On the sample environment: distance 0 leaves the shell \<open>[1]\<close> and the world as they
  were, distance 3.0 runs the body three times, and \<^verbatim>\<open>int(2.5)\<close> is 2.
\<close>

theorem expansion_iterations_witness:
  "expansion sample_library (Finite 0) [1] empty_world = (Return [1], empty_world) \<and>
   fst (expansion sample_library (Finite 3) [1] empty_world) = Return [7] \<and>
   stdout (snd (expansion sample_library (Finite 3) [1] empty_world)) =
     [Expanding_report 1, Expanding_report 2, Expanding_report 3] \<and>
   length (stdout (snd (expansion sample_library (Finite 3) [1] empty_world))) = 3 \<and>
   float_trunc (5 / 2) = 2"
proof -
  have z: "float_trunc 0 \<le> 0"
    by (simp add: float_trunc_def)
  have p: "(0::real) \<le> 5 / 2"
    by simp
  obtain W where run: "expansion sample_library (Finite 3) [1] empty_world = (Return [7], W)"
    by (simp add: sample_expansion_3)
  have a: "expansion sample_library (Finite 0) [1] empty_world = (Return [1], empty_world)"
    using expansion_iterations[of 0 sample_library "[1]" empty_world] z by simp
  have b: "stdout W = stdout empty_world @ map Expanding_report [1..float_trunc 3] \<and>
      length (stdout W) = length (stdout empty_world) + nat (float_trunc 3)"
    using expansion_iterations[of 3 sample_library "[1]" empty_world "[7]" W] run by simp
  have c: "float_trunc (5 / 2) = \<lfloor>(5 / 2)::real\<rfloor>"
    using expansion_iterations[of "5 / 2" sample_library "[1]" empty_world] p by simp
  have b': "stdout W = [Expanding_report 1, Expanding_report 2, Expanding_report 3] \<and>
      length (stdout W) = 3"
    using b by (simp add: empty_world_def float_trunc_def upto_rec1)
  show ?thesis
    using a b' c by (simp add: run)
qed

text \<open>
  The claim as stated fails for a distance that is not an integer: with distance 2.5 the
  loop's range is \<open>[1, 2]\<close> and the body runs twice, while \<open>\<lceil>2.5\<rceil> = 3\<close>.
\<close>

theorem expansion_not_ceiling:
  "py_range 1 (float_trunc (5 / 2) + 1) = [1, 2] \<and>
   fst (expansion sample_library (Finite (5 / 2)) [1] empty_world) = Return [5] \<and>
   stdout (snd (expansion sample_library (Finite (5 / 2)) [1] empty_world)) =
     [Expanding_report 1, Expanding_report 2] \<and>
   length (stdout (snd (expansion sample_library (Finite (5 / 2)) [1] empty_world))) \<noteq>
     nat \<lceil>(5 / 2)::real\<rceil>"
  by (simp add: expansion_defs prog_defs sample_library_def empty_world_def upto_rec1)

lemma expansion_step_Return_values:
  assumes "expansion_step L i shell w = (Return shell', w')"
  shows "\<exists>normals out. compute_normals L shell = Return normals \<and>
     vtkWarpVector_Update L \<lparr>InputData = Some normals,
        InputArrayToProcess = Some (0, 0, 0, FIELD_ASSOCIATION_POINTS, NORMALS),
        ScaleFactor = Some 2\<rparr> = Return out \<and>
     pv_wrap L out = Return shell'"
  using assms
  by (auto simp: expansion_step_def vtkWarpVector_new_def bnd_Return_iff ext_Return_iff print_iff)

lemma map2_same_map: "map2 f xs (map g xs) = map (\<lambda>x. f x (g x)) xs"
  by (induction xs) simp_all

text \<open>A point moved by \<open>k\<close> times a vector of length 1 is at distance \<open>\<bar>k\<bar>\<close> from where it was.\<close>

lemma unit_warp_moved:
  fixes ps ns :: "'x::real_normed_vector list"
  assumes "length ns = length ps" and "list_all (\<lambda>n. norm n = 1) ns"
  shows "list_all2 (\<lambda>p q. dist p q = \<bar>k\<bar>) ps (map2 (\<lambda>p n. p + k *\<^sub>R n) ps ns)"
  using assms by (simp add: list_all2_conv_all_nth list_all_length dist_norm)

lemma expansion_step_moves:
  fixes pos nrm :: "'p \<Rightarrow> 'x::real_normed_vector list"
  assumes lib: "warps_along_normals L pos nrm"
    and run: "expansion_step L i shell w = (Return shell', w')"
  shows "\<exists>normals out. compute_normals L shell = Return normals \<and>
      vtkWarpVector_Update L \<lparr>InputData = Some normals,
        InputArrayToProcess = Some (0, 0, 0, FIELD_ASSOCIATION_POINTS, NORMALS),
        ScaleFactor = Some 2\<rparr> = Return out \<and>
      pv_wrap L out = Return shell' \<and>
      length (nrm normals) = length (pos shell) \<and> list_all (\<lambda>n. norm n = 1) (nrm normals) \<and>
      pos shell' = map2 (\<lambda>p n. p + 2 *\<^sub>R n) (pos shell) (nrm normals)"
proof -
  from expansion_step_Return_values[OF run] obtain normals out where
    a: "compute_normals L shell = Return normals"
    and b: "vtkWarpVector_Update L \<lparr>InputData = Some normals,
        InputArrayToProcess = Some (0, 0, 0, FIELD_ASSOCIATION_POINTS, NORMALS),
        ScaleFactor = Some 2\<rparr> = Return out"
    and c: "pv_wrap L out = Return shell'"
    by blast
  from lib a have n: "pos normals = pos shell" "length (nrm normals) = length (pos shell)"
      "list_all (\<lambda>n. norm n = 1) (nrm normals)"
    unfolding warps_along_normals_def by blast+
  from lib b have "pos out = map2 (\<lambda>p n. p + 2 *\<^sub>R n) (pos normals) (nrm normals)"
    unfolding warps_along_normals_def by blast
  moreover from lib c have "pos shell' = pos out"
    unfolding warps_along_normals_def by blast
  ultimately have "pos shell' = map2 (\<lambda>p n. p + 2 *\<^sub>R n) (pos shell) (nrm normals)"
    by (simp add: n)
  with a b c n show ?thesis by blast
qed

lemma expansion_step_moved:
  fixes pos nrm :: "'p \<Rightarrow> 'x::real_normed_vector list"
  assumes lib: "warps_along_normals L pos nrm"
    and run: "expansion_step L i shell w = (Return shell', w')"
  shows "moved pos 2 shell shell'"
proof -
  from expansion_step_moves[OF lib run] obtain normals where
    n: "length (nrm normals) = length (pos shell)" "list_all (\<lambda>n. norm n = 1) (nrm normals)"
      "pos shell' = map2 (\<lambda>p n. p + 2 *\<^sub>R n) (pos shell) (nrm normals)"
    by blast
  from unit_warp_moved[OF n(1) n(2), of 2] show ?thesis
    by (simp add: moved_def n(3))
qed

text \<open>
  A loop that returns has passed through one state per element, each related to the one
  before as the body relates the state it returns to the state it was given.
\<close>

lemma for_each_Return_chain:
  assumes step: "\<And>i s w s' w'. body i s w = (Return s', w') \<Longrightarrow> R s s'"
  shows "for_each xs body s w = (Return s', w') \<Longrightarrow>
      \<exists>ss. length ss = length xs + 1 \<and> hd ss = s \<and> last ss = s' \<and> successively R ss"
proof (induction xs arbitrary: s w)
  case Nil
  then have "s' = s" by (simp add: ret_iff)
  then have "length [s] = length ([] :: 'a list) + 1 \<and> hd [s] = s \<and> last [s] = s' \<and>
      successively R [s]"
    by simp
  then show ?case by blast
next
  case (Cons i xs)
  from Cons.prems obtain s1 w1 where
    a: "body i s w = (Return s1, w1)" and b: "for_each xs body s1 w1 = (Return s', w')"
    by (auto simp: bnd_Return_iff)
  from Cons.IH[OF b] obtain ss where
    ss: "length ss = length xs + 1" "hd ss = s1" "last ss = s'" "successively R ss"
    by blast
  from ss(1) have ne: "ss \<noteq> []" by auto
  from step[OF a] ss ne have "length (s # ss) = length (i # xs) + 1 \<and> hd (s # ss) = s \<and>
      last (s # ss) = s' \<and> successively R (s # ss)"
    by (simp add: successively_Cons)
  then show ?case by blast
qed

lemma travelled_successively:
  fixes pos :: "'p \<Rightarrow> 'x::real_normed_vector list"
  shows "successively (moved pos k) (s # ss) \<Longrightarrow> j < length (pos s) \<Longrightarrow>
    travelled pos (s # ss) j = k * of_nat (length ss)"
proof (induction ss arbitrary: s)
  case Nil
  then show ?case by simp
next
  case (Cons s1 ss)
  from Cons.prems(1) have m: "moved pos k s s1" and rest: "successively (moved pos k) (s1 # ss)"
    by simp_all
  from m have len: "length (pos s1) = length (pos s)"
    by (simp add: moved_def list_all2_lengthD)
  from m Cons.prems(2) have d: "dist (pos s ! j) (pos s1 ! j) = k"
    using list_all2_nthD[of "\<lambda>p q. dist p q = k" "pos s" "pos s1" j] by (simp add: moved_def)
  from Cons.IH[OF rest] Cons.prems(2) len have "travelled pos (s1 # ss) j = k * of_nat (length ss)"
    by simp
  with d show ?case by (simp add: algebra_simps)
qed

text \<open>A point ends no farther from its start than the length of its path.\<close>

lemma dist_le_travelled:
  fixes pos :: "'p \<Rightarrow> 'x::real_normed_vector list"
  shows "dist (pos s ! j) (pos (last (s # ss)) ! j) \<le> travelled pos (s # ss) j"
proof (induction ss arbitrary: s)
  case Nil
  then show ?case by simp
next
  case (Cons s1 ss)
  have "dist (pos s ! j) (pos (last (s1 # ss)) ! j) \<le>
      dist (pos s ! j) (pos s1 ! j) + dist (pos s1 ! j) (pos (last (s1 # ss)) ! j)"
    by (rule dist_triangle)
  with Cons.IH[of s1] show ?case by simp
qed

lemma expansion_Return_path:
  fixes pos nrm :: "'p \<Rightarrow> 'x::real_normed_vector list"
  assumes lib: "warps_along_normals L pos nrm"
    and run: "expansion L (Finite d) shell w = (Return final, w')"
  shows "\<exists>ss. length ss = nat (float_trunc d) + 1 \<and> hd ss = shell \<and> last ss = final \<and>
      successively (moved pos 2) ss \<and>
      (\<forall>j<length (pos shell). travelled pos ss j = 2 * of_nat (nat (float_trunc d)) \<and>
         dist (pos shell ! j) (pos final ! j) \<le> 2 * of_nat (nat (float_trunc d)))"
proof -
  note loop = expansion_Return_loop[OF run]
  have "\<exists>ss. length ss = length [1..float_trunc d] + 1 \<and> hd ss = shell \<and> last ss = final \<and>
      successively (moved pos 2) ss"
  proof (rule for_each_Return_chain[where body = "expansion_step L" and R = "moved pos 2", OF _ loop])
    fix i s w s' w'
    assume "expansion_step L i s w = (Return s', w')"
    then show "moved pos 2 s s'"
      by (rule expansion_step_moved[OF lib])
  qed
  then obtain ss where
    ss: "length ss = nat (float_trunc d) + 1" "hd ss = shell" "last ss = final"
      "successively (moved pos 2) ss"
    by auto
  from ss(1) obtain rest where r: "ss = shell # rest" "length rest = nat (float_trunc d)"
    using ss(2) by (cases ss) auto
  have "travelled pos ss j = 2 * of_nat (nat (float_trunc d))" if "j < length (pos shell)" for j
    using travelled_successively[of pos 2 shell rest j] ss(4) that by (simp add: r)
  moreover have "dist (pos shell ! j) (pos final ! j) \<le> travelled pos ss j" for j
    using dist_le_travelled[of pos shell j rest] ss(3) by (simp add: r)
  ultimately have "\<forall>j<length (pos shell). travelled pos ss j = 2 * of_nat (nat (float_trunc d)) \<and>
         dist (pos shell ! j) (pos final ! j) \<le> 2 * of_nat (nat (float_trunc d))"
    by (metis order_refl)
  with ss show ?thesis by blast
qed

lemma float_trunc_above_minus_one: "- 1 < d \<Longrightarrow> 0 \<le> float_trunc d"
  by (auto simp: float_trunc_def)

text \<open>
  C2. Let the libraries move points as \<open>warps_along_normals\<close> says. An iteration that
  returns has recomputed the normals of the current shell, run the warp filter on the
  result with the point normals as vectors and the scale factor 2, whatever the distance,
  and wrapped the output: every point of the new shell is the point of the old one plus
  2 times its recomputed normal, a vector of length 1, and so lies at distance 2 from it.
  An expansion that returns, for a distance above \<open>-1\<close> (so for every distance that is not
  negative), has issued exactly \<^verbatim>\<open>int(distance)\<close> such triples of calls and has taken the
  shell through \<^verbatim>\<open>int(distance)\<close> such moves: every point has travelled
  \<^verbatim>\<open>2 * int(distance)\<close>, and ends at most that far from where it started.
\<close>

theorem expansion_displacement:
  fixes pos nrm :: "'p \<Rightarrow> 'x::real_normed_vector list"
  assumes "warps_along_normals L pos nrm" and "- 1 < d"
  shows "(expansion_step L i shell w = (Return shell', w') \<longrightarrow>
      (\<exists>normals out. compute_normals L shell = Return normals \<and>
         vtkWarpVector_Update L \<lparr>InputData = Some normals,
            InputArrayToProcess = Some (0, 0, 0, FIELD_ASSOCIATION_POINTS, NORMALS),
            ScaleFactor = Some 2\<rparr> = Return out \<and>
         pv_wrap L out = Return shell' \<and>
         length (nrm normals) = length (pos shell) \<and> list_all (\<lambda>n. norm n = 1) (nrm normals) \<and>
         pos shell' = map2 (\<lambda>p n. p + 2 *\<^sub>R n) (pos shell) (nrm normals)) \<and>
      moved pos 2 shell shell') \<and>
   (expansion L (Finite d) shell w = (Return final, w'') \<longrightarrow>
      calls w'' = calls w @ concat (replicate (nat (float_trunc d))
        [(Compute_normals, Returned),
         (WarpVector_Update (Some (0, 0, 0, FIELD_ASSOCIATION_POINTS, NORMALS)) (Some 2), Returned),
         (Pv_wrap, Returned)]) \<and>
      (\<exists>ss. length ss = nat (float_trunc d) + 1 \<and> hd ss = shell \<and> last ss = final \<and>
         successively (moved pos 2) ss \<and>
         (\<forall>j<length (pos shell). travelled pos ss j = 2 * of_int (float_trunc d) \<and>
            dist (pos shell ! j) (pos final ! j) \<le> 2 * of_int (float_trunc d))))"
proof (intro conjI impI)
  assume run: "expansion_step L i shell w = (Return shell', w')"
  from expansion_step_moves[OF assms(1) run]
  show "\<exists>normals out. compute_normals L shell = Return normals \<and>
         vtkWarpVector_Update L \<lparr>InputData = Some normals,
            InputArrayToProcess = Some (0, 0, 0, FIELD_ASSOCIATION_POINTS, NORMALS),
            ScaleFactor = Some 2\<rparr> = Return out \<and>
         pv_wrap L out = Return shell' \<and>
         length (nrm normals) = length (pos shell) \<and> list_all (\<lambda>n. norm n = 1) (nrm normals) \<and>
         pos shell' = map2 (\<lambda>p n. p + 2 *\<^sub>R n) (pos shell) (nrm normals)" .
  from expansion_step_moved[OF assms(1) run] show "moved pos 2 shell shell'" .
next
  assume run: "expansion L (Finite d) shell w = (Return final, w'')"
  from expansion_Return[OF run]
  show "calls w'' = calls w @ concat (replicate (nat (float_trunc d))
        [(Compute_normals, Returned),
         (WarpVector_Update (Some (0, 0, 0, FIELD_ASSOCIATION_POINTS, NORMALS)) (Some 2), Returned),
         (Pv_wrap, Returned)])"
    by simp
  have "(of_nat (nat (float_trunc d)) :: real) = of_int (float_trunc d)"
    using float_trunc_above_minus_one[OF assms(2)] by simp
  with expansion_Return_path[OF assms(1) run]
  show "\<exists>ss. length ss = nat (float_trunc d) + 1 \<and> hd ss = shell \<and> last ss = final \<and>
         successively (moved pos 2) ss \<and>
         (\<forall>j<length (pos shell). travelled pos ss j = 2 * of_int (float_trunc d) \<and>
            dist (pos shell ! j) (pos final ! j) \<le> 2 * of_int (float_trunc d))"
    by simp
qed

text \<open>
  The sample environment, where a point is a coordinate on a line and every normal is
  \<open>+1\<close>, moves points as \<open>warps_along_normals\<close> says. There one iteration moves the point 1
  to 3, and distance 3 takes it through 3 and 5 to 7: it has travelled \<open>6 = 2 * 3\<close>.
\<close>

lemma sample_warps_along_normals:
  "warps_along_normals sample_library (\<lambda>ps. ps) (map (\<lambda>p. 1))"
  by (auto simp: warps_along_normals_def sample_library_def map2_same_map list_all_iff)

theorem expansion_displacement_witness:
  "warps_along_normals sample_library (\<lambda>ps. ps) (map (\<lambda>p. 1)) \<and> - 1 < (3 :: real) \<and>
   fst (expansion_step sample_library 1 [1] empty_world) = Return [3] \<and>
   compute_normals sample_library [1] = Return [1] \<and>
   vtkWarpVector_Update sample_library \<lparr>InputData = Some [1],
      InputArrayToProcess = Some (0, 0, 0, FIELD_ASSOCIATION_POINTS, NORMALS),
      ScaleFactor = Some 2\<rparr> = Return [3] \<and>
   moved (\<lambda>ps. ps) 2 [1 :: real] [3] \<and>
   fst (expansion sample_library (Finite 3) [1] empty_world) = Return [7] \<and>
   (\<exists>ss. length ss = 4 \<and> hd ss = [1 :: real] \<and> last ss = [7 :: real] \<and>
      successively (moved (\<lambda>ps. ps) 2) ss \<and> travelled (\<lambda>ps. ps) ss 0 = (6 :: real)) \<and>
   travelled (\<lambda>ps. ps) [[1], [3], [5], [7 :: real]] 0 = 6 \<and>
   dist (1 :: real) 7 \<le> 6"
proof -
  obtain W1 where step: "expansion_step sample_library 1 [1] empty_world = (Return [3], W1)"
    by (simp add: expansion_defs prog_defs sample_library_def empty_world_def)
  obtain W where run: "expansion sample_library (Finite 3) [1] empty_world = (Return [7], W)"
    by (simp add: sample_expansion_3)
  have d: "- 1 < (3 :: real)" by simp
  note inst = expansion_displacement[OF sample_warps_along_normals d,
      where i = 1 and shell = "[1]" and w = empty_world and shell' = "[3]" and w' = W1
        and final = "[7]" and w'' = W]
  from inst step obtain normals out where
    a: "compute_normals sample_library [1] = Return normals"
      "vtkWarpVector_Update sample_library \<lparr>InputData = Some normals,
         InputArrayToProcess = Some (0, 0, 0, FIELD_ASSOCIATION_POINTS, NORMALS),
         ScaleFactor = Some 2\<rparr> = Return out"
      "pv_wrap sample_library out = Return [3]"
    and m: "moved (\<lambda>ps. ps) 2 [1 :: real] [3]"
    by blast
  from a have n: "normals = [1]" and o: "out = [3]"
    by (simp_all add: sample_library_def)
  from inst run obtain ss where
    ss: "length ss = nat (float_trunc 3) + 1" "hd ss = [1 :: real]" "last ss = [7 :: real]"
      "successively (moved (\<lambda>ps. ps) 2) ss"
    and t: "\<forall>j<length [1 :: real]. travelled (\<lambda>ps. ps) ss j = 2 * of_int (float_trunc 3) \<and>
        dist ([1 :: real] ! j) ([7] ! j) \<le> 2 * of_int (float_trunc 3)"
    by blast
  have f: "float_trunc 3 = 3" by (simp add: float_trunc_def)
  from t have t0: "travelled (\<lambda>ps. ps) ss 0 = 6" "dist (1 :: real) 7 \<le> 6"
    by (simp_all add: f)
  from ss t0 have path: "\<exists>ss. length ss = 4 \<and> hd ss = [1 :: real] \<and> last ss = [7 :: real] \<and>
      successively (moved (\<lambda>ps. ps) 2) ss \<and> travelled (\<lambda>ps. ps) ss 0 = (6 :: real)"
    by (auto simp: f)
  have c: "travelled (\<lambda>ps. ps) [[1], [3], [5], [7 :: real]] 0 = 6"
    by (simp add: dist_real_def)
  show ?thesis
    using sample_warps_along_normals a n o m path c t0(2) by (simp add: step run)
qed

section \<open>Preparation and refinement of the mesh\<close>

lemma refinement_round_Return:
  assumes "refinement_round L i mesh w = (Return mesh', w')"
  shows "stdout w' = stdout w @
       [Iteration_report (i + 1) (nVertices L mesh') (nEdges L mesh') (nFaces L mesh')] \<and>
     calls w' = calls w @ [(Coarse_dense 2 3, Returned), (Coarse_flat (1 / 10) 3, Returned),
        (Smooth 3 True False, Returned)] \<and> files w' = files w"
  using assms
  by (auto simp: refinement_round_def bnd_Return_iff ext_Return_iff print_iff ret_iff)

lemma refinement_round_Return_values:
  assumes "refinement_round L i mesh w = (Return mesh', w')"
  shows "\<exists>dense flat. coarse_dense L 2 3 mesh = Return dense \<and>
     coarse_flat L (1 / 10) 3 dense = Return flat \<and> smooth L 3 True False flat = Return mesh'"
  using assms
  by (auto simp: refinement_round_def bnd_Return_iff ext_Return_iff print_iff ret_iff)

lemma refinement_loop_Return:
  assumes "refinement_loop L mesh w = (Return mesh', w')"
  shows "calls w' = calls w @ concat (replicate 5
        [(Coarse_dense 2 3, Returned), (Coarse_flat (1 / 10) 3, Returned),
         (Smooth 3 True False, Returned)]) \<and>
     length (stdout w') = length (stdout w) + 5 \<and> files w' = files w"
proof -
  from assms have loop: "for_each [0..4] (refinement_round L) mesh w = (Return mesh', w')"
    by (simp add: refinement_loop_def py_range_def)
  have step: "\<And>i s w s' w'. refinement_round L i s w = (Return s', w') \<Longrightarrow>
      stdout w' = stdout w @
        [(\<lambda>i s. Iteration_report (i + 1) (nVertices L s) (nEdges L s) (nFaces L s)) i s'] \<and>
      calls w' = calls w @ [(Coarse_dense 2 3, Returned), (Coarse_flat (1 / 10) 3, Returned),
        (Smooth 3 True False, Returned)] \<and> files w' = files w"
    by (simp add: refinement_round_Return)
  from for_each_Return_log[of "refinement_round L", OF step loop] show ?thesis
    by simp
qed

lemma for_each_calls_prefix:
  assumes body: "\<And>i s w r w'. body i s w = (r, w') \<Longrightarrow>
      \<exists>cs. calls w' = calls w @ cs \<and> map fst cs = take (length cs) K \<and>
        length cs \<le> length K \<and> ((\<exists>x. r = Return x) \<longrightarrow> length cs = length K)"
  shows "for_each xs body s w = (r, w') \<Longrightarrow>
      \<exists>cs. calls w' = calls w @ cs \<and>
        map fst cs = take (length cs) (concat (replicate (length xs) K)) \<and>
        length cs \<le> length xs * length K"
proof (induction xs arbitrary: s w)
  case Nil
  then show ?case by (simp add: ret_iff)
next
  case (Cons i xs)
  obtain r1 w1 where first: "body i s w = (r1, w1)"
    by (cases "body i s w")
  from body[OF first] obtain cs1 where
    cs1: "calls w1 = calls w @ cs1" "map fst cs1 = take (length cs1) K" "length cs1 \<le> length K"
      "(\<exists>x. r1 = Return x) \<longrightarrow> length cs1 = length K"
    by blast
  show ?case
  proof (cases r1)
    case (Return s1)
    with Cons.prems first have rest: "for_each xs body s1 w1 = (r, w')"
      by (simp add: bnd_def)
    from Cons.IH[OF rest] obtain cs2 where
      cs2: "calls w' = calls w1 @ cs2"
        "map fst cs2 = take (length cs2) (concat (replicate (length xs) K))"
        "length cs2 \<le> length xs * length K"
      by blast
    from cs1 Return have full: "map fst cs1 = K" "length cs1 = length K"
      by simp_all
    from cs1(1) cs2(1) have "calls w' = calls w @ (cs1 @ cs2)"
      by simp
    moreover from full cs2 have
      "map fst (cs1 @ cs2) = take (length (cs1 @ cs2)) (concat (replicate (length (i # xs)) K))"
      by simp
    moreover from full cs2 have "length (cs1 @ cs2) \<le> length (i # xs) * length K"
      by simp
    ultimately show ?thesis
      by blast
  next
    case (Raise e)
    with Cons.prems first have "r = Raise e \<and> w' = w1"
      by (simp add: bnd_def)
    with cs1 show ?thesis
      by (intro exI[of _ cs1]) simp
  next
    case Blocked
    with Cons.prems first have "r = Blocked \<and> w' = w1"
      by (simp add: bnd_def)
    with cs1 show ?thesis
      by (intro exI[of _ cs1]) simp
  qed
qed

lemma refinement_round_calls:
  assumes "refinement_round L i mesh w = (r, w')"
  shows "\<exists>cs. calls w' = calls w @ cs \<and>
     map fst cs = take (length cs) [Coarse_dense 2 3, Coarse_flat (1 / 10) 3, Smooth 3 True False] \<and>
     length cs \<le> length [Coarse_dense 2 3, Coarse_flat (1 / 10) 3, Smooth 3 True False] \<and>
     ((\<exists>x. r = Return x) \<longrightarrow>
        length cs = length [Coarse_dense 2 3, Coarse_flat (1 / 10) 3, Smooth 3 True False])"
proof (cases "coarse_dense L 2 3 mesh")
  case (Return dense)
  show ?thesis
  proof (cases "coarse_flat L (1 / 10) 3 dense")
    case flat: (Return flat)
    show ?thesis
      using assms Return flat
      by (cases "smooth L 3 True False flat")
        (auto simp: refinement_round_def bnd_def ext_def print_def ret_def)
  qed (use assms Return in \<open>auto simp: refinement_round_def bnd_def ext_def\<close>)
qed (use assms in \<open>auto simp: refinement_round_def bnd_def ext_def\<close>)

lemma refinement_loop_calls:
  assumes "refinement_loop L mesh w = (r, w')"
  shows "\<exists>cs. calls w' = calls w @ cs \<and>
     map fst cs = take (length cs) (concat (replicate 5
       [Coarse_dense 2 3, Coarse_flat (1 / 10) 3, Smooth 3 True False])) \<and>
     length cs \<le> 15"
proof -
  from assms have loop: "for_each [0..4] (refinement_round L) mesh w = (r, w')"
    by (simp add: refinement_loop_def py_range_def)
  have len: "length [0..4::int] = 5"
    by simp
  from for_each_calls_prefix[of "refinement_round L"
      "[Coarse_dense 2 3, Coarse_flat (1 / 10) 3, Smooth 3 True False]", OF refinement_round_calls loop]
  show ?thesis
    unfolding len by simp
qed

text \<open>
  C4. A round of the refinement loop that returns has called, in this order and each on
  the result of the one before, \<^verbatim>\<open>coarse_dense(rate=2, numiter=3)\<close>,
  \<^verbatim>\<open>coarse_flat(rate=0.1, numiter=3)\<close> and \<^verbatim>\<open>smooth(max_iter=3, preserve_ridges=True)\<close>; a
  refinement loop that returns has run exactly 5 such rounds and printed 5 reports,
  whatever the libraries computed; and the calls of any run of the loop, also one that a
  failing call ends early, are the first calls of these 15.
\<close>

theorem refinement_five_rounds:
  "(refinement_round L i mesh w = (Return mesh', w') \<longrightarrow>
      (\<exists>dense flat. coarse_dense L 2 3 mesh = Return dense \<and>
         coarse_flat L (1 / 10) 3 dense = Return flat \<and>
         smooth L 3 True False flat = Return mesh')) \<and>
   (refinement_loop L mesh w = (Return mesh', w') \<longrightarrow>
      calls w' = calls w @ concat (replicate 5
        [(Coarse_dense 2 3, Returned), (Coarse_flat (1 / 10) 3, Returned),
         (Smooth 3 True False, Returned)]) \<and>
      length (stdout w') = length (stdout w) + 5) \<and>
   (refinement_loop L mesh w = (r, w') \<longrightarrow>
      (\<exists>cs. calls w' = calls w @ cs \<and>
         map fst cs = take (length cs) (concat (replicate 5
           [Coarse_dense 2 3, Coarse_flat (1 / 10) 3, Smooth 3 True False])) \<and>
         length cs \<le> 15))"
  using refinement_round_Return_values[of L i mesh w mesh' w']
    refinement_loop_Return[of L mesh w mesh' w']
    refinement_loop_calls[of L mesh w r w']
  by blast

lemmas refinement_defs = refinement_loop_def refinement_round_def py_range_def

lemma sample_refinement:
  "refinement_loop sample_library (sample_mesh [1]) empty_world =
     (Return (sample_mesh [1]),
      empty_world\<lparr>stdout := map (\<lambda>i. Iteration_report i 1 1 1) [1, 2, 3, 4, 5],
        calls := concat (replicate 5
          [(Coarse_dense 2 3, Returned), (Coarse_flat (1 / 10) 3, Returned),
           (Smooth 3 True False, Returned)])\<rparr>)"
  by (simp add: refinement_defs prog_defs sample_defs upto_rec1 eval_nat_numeral)

text \<open>
  On the sample environment, whose coarsening and smoothing leave the mesh as it is; and
  on the same environment with a \<^verbatim>\<open>coarse_flat\<close> that raises, where the loop ends in its
  first round, after two calls.
\<close>

theorem refinement_five_rounds_witness:
  "fst (refinement_round sample_library 0 (sample_mesh [1]) empty_world) = Return (sample_mesh [1]) \<and>
   coarse_dense sample_library 2 3 (sample_mesh [1]) = Return (sample_mesh [1]) \<and>
   fst (refinement_loop sample_library (sample_mesh [1]) empty_world) = Return (sample_mesh [1]) \<and>
   length (calls (snd (refinement_loop sample_library (sample_mesh [1]) empty_world))) = 15 \<and>
   take 3 (calls (snd (refinement_loop sample_library (sample_mesh [1]) empty_world))) =
     [(Coarse_dense 2 3, Returned), (Coarse_flat (1 / 10) 3, Returned),
      (Smooth 3 True False, Returned)] \<and>
   length (stdout (snd (refinement_loop sample_library (sample_mesh [1]) empty_world))) = 5 \<and>
   refinement_loop
     (sample_library\<lparr>coarse_flat := \<lambda>rate numiter m. Raise (LibraryError ''flat'')\<rparr>)
     (sample_mesh [1]) empty_world =
     (Raise (LibraryError ''flat''),
      empty_world\<lparr>calls := [(Coarse_dense 2 3, Returned),
        (Coarse_flat (1 / 10) 3, Raised (LibraryError ''flat''))]\<rparr>) \<and>
   length (calls (snd (refinement_loop
     (sample_library\<lparr>coarse_flat := \<lambda>rate numiter m. Raise (LibraryError ''flat'')\<rparr>)
     (sample_mesh [1]) empty_world))) \<le> 15"
proof -
  let ?F = "sample_library\<lparr>coarse_flat := \<lambda>rate numiter m. Raise (LibraryError ''flat'')\<rparr>"
  define V where "V = snd (refinement_round sample_library 0 (sample_mesh [1]) empty_world)"
  have round: "refinement_round sample_library 0 (sample_mesh [1]) empty_world =
      (Return (sample_mesh [1]), V)"
    by (simp add: V_def refinement_round_def prog_defs sample_library_def)
  from refinement_five_rounds[of sample_library 0 "sample_mesh [1]" empty_world
      "sample_mesh [1]" V "Return (sample_mesh [1])", THEN conjunct1, rule_format, OF round]
  have dense: "coarse_dense sample_library 2 3 (sample_mesh [1]) = Return (sample_mesh [1])"
    by (auto simp: sample_library_def)
  obtain W where run:
    "refinement_loop sample_library (sample_mesh [1]) empty_world = (Return (sample_mesh [1]), W)"
    by (simp add: sample_refinement)
  from refinement_five_rounds[of sample_library 0 "sample_mesh [1]" empty_world
      "sample_mesh [1]" W "Return (sample_mesh [1])", THEN conjunct2, THEN conjunct1,
      rule_format, OF run]
  have "length (calls W) = 15 \<and>
      take 3 (calls W) = [(Coarse_dense 2 3, Returned), (Coarse_flat (1 / 10) 3, Returned),
        (Smooth 3 True False, Returned)] \<and>
      length (stdout W) = 5"
    by (simp add: empty_world_def eval_nat_numeral)
  note whole = this
  have failing: "refinement_loop ?F (sample_mesh [1]) empty_world =
     (Raise (LibraryError ''flat''),
      empty_world\<lparr>calls := [(Coarse_dense 2 3, Returned),
        (Coarse_flat (1 / 10) 3, Raised (LibraryError ''flat''))]\<rparr>)"
    by (simp add: refinement_defs prog_defs sample_defs upto_rec1)
  define U where "U = snd (refinement_loop ?F (sample_mesh [1]) empty_world)"
  have ended: "refinement_loop ?F (sample_mesh [1]) empty_world = (Raise (LibraryError ''flat''), U)"
    by (simp add: U_def failing)
  from refinement_five_rounds[of ?F 0 "sample_mesh [1]" empty_world "sample_mesh [1]" U
      "Raise (LibraryError ''flat'')", THEN conjunct2, THEN conjunct2, rule_format, OF ended]
  obtain cs where "calls U = calls empty_world @ cs" "length cs \<le> 15"
    by blast
  then have "length (calls U) \<le> 15"
    by (simp add: empty_world_def)
  then have short: "length (calls (snd (refinement_loop ?F (sample_mesh [1]) empty_world))) \<le> 15"
    by (simp add: U_def)
  from dense whole short show ?thesis
    by (simp add: run round failing)
qed

lemma select_all_vertices_selected:
  "\<forall>v \<in> set (vertexIDs (select_all_vertices mesh)). selected v"
  by (simp add: select_all_vertices_def)

lemma select_all_vertices_frame:
  "map vertex_data (vertexIDs (select_all_vertices mesh)) = map vertex_data (vertexIDs mesh) \<and>
   faceIDs (select_all_vertices mesh) = faceIDs mesh \<and>
   getRoot (select_all_vertices mesh) = getRoot mesh \<and>
   geometry (select_all_vertices mesh) = geometry mesh"
  by (simp add: select_all_vertices_def)

lemma initial_smoothing_run:
  "initial_smoothing L mesh w =
     (smooth L 5 False True (select_all_vertices mesh),
      w\<lparr>calls := calls w @
        [(Smooth 5 False True, outcome_of (smooth L 5 False True (select_all_vertices mesh)))]\<rparr>)"
  by (simp add: initial_smoothing_def ext_def)

section \<open>Choosing the component\<close>

lemma for_each_volumes_Return:
  "for_each (enumerate n meshes)
      (\<lambda>(i, m) _. bnd (ext GetVolume (getVolume L m)) (\<lambda>vol. print (Volume_report i vol))) ()
      w = (Return u, w') \<Longrightarrow>
   calls w' = calls w @ replicate (length meshes) (GetVolume, Returned) \<and> files w' = files w"
proof (induction meshes arbitrary: n w)
  case Nil
  then show ?case by (simp add: ret_iff)
next
  case (Cons m meshes)
  from Cons.prems obtain w1 where
    a: "bnd (ext GetVolume (getVolume L m)) (\<lambda>vol. print (Volume_report n vol)) w = (Return (), w1)"
    and b: "for_each (enumerate (Suc n) meshes)
      (\<lambda>(i, m) _. bnd (ext GetVolume (getVolume L m)) (\<lambda>vol. print (Volume_report i vol))) ()
      w1 = (Return u, w')"
    by (auto simp: bnd_Return_iff)
  from a have "calls w1 = calls w @ [(GetVolume, Returned)] \<and> files w1 = files w"
    by (auto simp: bnd_Return_iff ext_Return_iff print_iff)
  with Cons.IH[OF b] show ?case
    by (simp add: replicate_append_same)
qed

lemma for_each_volumes_total:
  "\<forall>m \<in> set meshes. \<exists>v. getVolume L m = Return v \<Longrightarrow>
   \<exists>w'. for_each (enumerate n meshes)
      (\<lambda>(i, m) _. bnd (ext GetVolume (getVolume L m)) (\<lambda>vol. print (Volume_report i vol))) ()
      w = (Return (), w')"
proof (induction meshes arbitrary: n w)
  case Nil
  then show ?case by (simp add: ret_def)
next
  case (Cons m meshes)
  from Cons.prems obtain v where v: "getVolume L m = Return v"
    by auto
  from Cons.prems have rest: "\<forall>m \<in> set meshes. \<exists>v. getVolume L m = Return v"
    by simp
  show ?case
    using Cons.IH[OF rest, of "Suc n"] v
    by (simp add: bnd_def ext_def print_def)
qed

lemma select_component_Return:
  assumes "select_component L meshes w = (Return mesh, w')"
  shows "meshes \<noteq> [] \<and> mesh = meshes ! 0 \<and>
     calls w' = calls w @ replicate (length meshes) (GetVolume, Returned) \<and> files w' = files w"
proof -
  from assms obtain u w1 where
    a: "print_volumes L meshes w = (Return u, w1)" and b: "index0 meshes w1 = (Return mesh, w')"
    by (auto simp: select_component_def bnd_Return_iff)
  from b have "meshes \<noteq> [] \<and> mesh = meshes ! 0 \<and> w' = w1"
    by (cases meshes) (auto simp: index0_def lift_def ret_def)
  moreover from a have "calls w1 = calls w @ replicate (length meshes) (GetVolume, Returned) \<and>
      files w1 = files w"
    unfolding print_volumes_def by (rule for_each_volumes_Return)
  ultimately show ?thesis by simp
qed

lemma select_component_total:
  assumes "\<forall>m \<in> set meshes. \<exists>v. getVolume L m = Return v" and "meshes \<noteq> []"
  shows "fst (select_component L meshes w) = Return (meshes ! 0)"
proof -
  from for_each_volumes_total[OF assms(1), of 0 w] obtain w1 where
    "print_volumes L meshes w = (Return (), w1)"
    by (auto simp: print_volumes_def)
  with assms(2) show ?thesis
    by (cases meshes) (simp_all add: select_component_def bnd_def index0_def ret_def)
qed

lemma surface_construction_Return:
  assumes "surface_construction L a w = (Return mesh, w')"
  shows "\<exists>m0 info m1 m2 rest. readPDB_gauss L (molecule a) = Return m0 \<and>
     compute_orientation L m0 = Return (info, m1) \<and> correctNormals L m1 = Return m2 \<and>
     splitSurfaces L m2 = Return (mesh # rest) \<and>
     calls w' = calls w @ [(ReadPDB_gauss (molecule a), Returned), (Compute_orientation, Returned),
        (CorrectNormals, Returned), (SplitSurfaces, Returned)]
        @ replicate (Suc (length rest)) (GetVolume, Returned) \<and>
     files w' = files w"
proof -
  from assms obtain m0 w0 info m1 w1 m2 w2 w3 meshes w4 where
    r: "readPDB_gauss L (molecule a) = Return m0" "compute_orientation L m0 = Return (info, m1)"
      "correctNormals L m1 = Return m2" "splitSurfaces L m2 = Return meshes" and
    w: "w0 = w\<lparr>calls := calls w @ [(ReadPDB_gauss (molecule a), Returned)]\<rparr>"
      "w1 = w0\<lparr>calls := calls w0 @ [(Compute_orientation, Returned)]\<rparr>"
      "w2 = w1\<lparr>calls := calls w1 @ [(CorrectNormals, Returned)]\<rparr>"
      "w4 = w3\<lparr>calls := calls w3 @ [(SplitSurfaces, Returned)]\<rparr>" and
    p: "print (Orientation_report (fst info) (fst (snd info)) (snd (snd info))) w2 = (Return (), w3)"
      and
    s: "select_component L meshes w4 = (Return mesh, w')"
    by (auto simp: surface_construction_def bnd_Return_iff ext_Return_iff split: prod.splits)
  from select_component_Return[OF s] obtain rest where
    "meshes = mesh # rest"
    "calls w' = calls w4 @ replicate (length meshes) (GetVolume, Returned)" "files w' = files w4"
    by (cases meshes) auto
  with w p have "calls w' = calls w @ [(ReadPDB_gauss (molecule a), Returned),
        (Compute_orientation, Returned), (CorrectNormals, Returned), (SplitSurfaces, Returned)]
        @ replicate (Suc (length rest)) (GetVolume, Returned) \<and>
      files w' = files w"
    by (simp add: print_iff)
  with r \<open>meshes = mesh # rest\<close> show ?thesis
    by blast
qed

text \<open>
  C3. Whenever the selection returns, the list of components was not empty and the mesh
  it returns is \<^verbatim>\<open>meshes[0]\<close>; it returns \<^verbatim>\<open>meshes[0]\<close> for every non-empty list whose volumes
  can be computed, whatever these volumes are. So a surface construction that returns
  hands on the first mesh that \<^verbatim>\<open>splitSurfaces\<close> reported and none of the others.
\<close>

theorem first_component_selected:
  "(select_component L meshes w = (Return mesh, w') \<longrightarrow> meshes \<noteq> [] \<and> mesh = meshes ! 0) \<and>
   ((\<forall>m \<in> set meshes. \<exists>v. getVolume L m = Return v) \<and> meshes \<noteq> [] \<longrightarrow>
      fst (select_component L meshes w) = Return (meshes ! 0)) \<and>
   (surface_construction L a w = (Return mesh, w') \<longrightarrow>
      (\<exists>m0 info m1 m2 rest. readPDB_gauss L (molecule a) = Return m0 \<and>
         compute_orientation L m0 = Return (info, m1) \<and> correctNormals L m1 = Return m2 \<and>
         splitSurfaces L m2 = Return (mesh # rest)))"
  using select_component_Return[of L meshes w mesh w']
    select_component_total[of meshes L w]
    surface_construction_Return[of L a w mesh w']
  by blast

lemmas construction_defs = surface_construction_def select_component_def print_volumes_def
  enumerate_eq_zip

text \<open>
  On the sample environment the first reported component has volume 1 and the second
  volume 3: the script keeps the first, the smaller one.
\<close>

theorem first_component_selected_witness:
  "getVolume sample_library (sample_mesh [1]) = Return (Finite 1) \<and>
   getVolume sample_library (sample_mesh [10, 11, 12]) = Return (Finite 3) \<and>
   fst (select_component sample_library [sample_mesh [1], sample_mesh [10, 11, 12]] empty_world) =
     Return (sample_mesh [1]) \<and>
   [sample_mesh [1], sample_mesh [10, 11, 12]] ! 0 = sample_mesh [1] \<and>
   fst (surface_construction sample_library (sample_args 3) empty_world) = Return (sample_mesh [1]) \<and>
   splitSurfaces sample_library (sample_mesh [1, 10, 11, 12]) =
     Return [sample_mesh [1], sample_mesh [10, 11, 12]]"
proof -
  let ?ms = "[sample_mesh [1], sample_mesh [10, 11, 12]]"
  have vol: "getVolume sample_library (sample_mesh [1]) = Return (Finite 1)"
    "getVolume sample_library (sample_mesh [10, 11, 12]) = Return (Finite 3)"
    by (simp_all add: sample_defs)
  then have pre: "(\<forall>m \<in> set ?ms. \<exists>v. getVolume sample_library m = Return v) \<and> ?ms \<noteq> []"
    by simp
  have sel: "fst (select_component sample_library ?ms empty_world) = Return (?ms ! 0)"
    using first_component_selected[of sample_library ?ms empty_world] pre by blast
  define V where "V = snd (select_component sample_library ?ms empty_world)"
  have chosen: "select_component sample_library ?ms empty_world = (Return (?ms ! 0), V)"
    using sel by (simp add: V_def prod_eq_iff)
  from first_component_selected[of sample_library ?ms empty_world "?ms ! 0" V "sample_args 3",
      THEN conjunct1, rule_format, OF chosen]
  have first: "?ms \<noteq> [] \<and> ?ms ! 0 = ?ms ! 0" .
  obtain W where run:
    "surface_construction sample_library (sample_args 3) empty_world = (Return (sample_mesh [1]), W)"
    by (simp add: construction_defs prog_defs sample_defs)
  from first_component_selected[of sample_library ?ms empty_world "sample_mesh [1]" W
      "sample_args 3"] run
  obtain m0 info m1 m2 rest where
    c: "readPDB_gauss sample_library (molecule (sample_args 3)) = Return m0"
      "compute_orientation sample_library m0 = Return (info, m1)"
      "correctNormals sample_library m1 = Return m2"
      "splitSurfaces sample_library m2 = Return (sample_mesh [1] # rest)"
    by blast
  have split: "splitSurfaces sample_library (sample_mesh [1, 10, 11, 12]) = Return ?ms"
    by (simp add: sample_defs)
  show ?thesis
    using vol sel split by (simp add: run)
qed

section \<open>The stages of a run that returns\<close>

lemma initial_smoothing_Return:
  assumes "initial_smoothing L mesh w = (Return mesh', w')"
  shows "smooth L 5 False True (select_all_vertices mesh) = Return mesh' \<and>
     calls w' = calls w @ [(Smooth 5 False True, Returned)] \<and> files w' = files w"
  using assms by (auto simp: initial_smoothing_def ext_Return_iff)

lemma export_obj_Return:
  assumes "export_obj L a mesh w = (Return name, w')"
  shows "name = path_stem L (molecule a) @ ''.obj'' \<and>
     writeOBJ L name (set_root (mark_faces mesh)) = Return () \<and>
     calls w' = calls w @ [(WriteOBJ name, Returned)] \<and>
     files w' = (files w)(name \<mapsto> OBJ (set_root (mark_faces mesh)))"
  using assms
  by (auto simp: export_obj_def Let_def bnd_Return_iff write_call_Return_iff ret_iff)

lemma decimation_Return:
  assumes "decimation L name w = (Return shell, w')"
  shows "(\<exists>mesh decimated. pv_read L name (files w name) = Return mesh \<and>
       decimate L (97 / 100) True mesh = Return decimated \<and>
       extract_surface L decimated = Return shell) \<and>
     calls w' = calls w @ [(Pv_read name, Returned), (Decimate (97 / 100) True, Returned),
       (Extract_surface, Returned)] \<and>
     files w' = files w"
  using assms
  by (auto simp: decimation_def bnd_Return_iff ext_Return_iff load_file_iff print_iff ret_iff)

lemma expansion_Return_finite:
  assumes "expansion L x shell w = (Return shell', w')"
  shows "\<exists>d. x = Finite d"
  using assms by (cases x) (simp_all add: expansion_def bnd_def lift_def)

lemma resampling_Return:
  assumes "resampling L n shell w = (Return (expanded_mesh, uniform), w')"
  shows "(\<exists>c1 c2 c3 created. extract_surface L shell = Return expanded_mesh \<and>
       Clustering L expanded_mesh = Return c1 \<and> subdivide L 3 c1 = Return c2 \<and>
       cluster L n c2 = Return c3 \<and> create_mesh L c3 = Return created \<and>
       extract_surface L created = Return uniform) \<and>
     calls w' = calls w @ [(Extract_surface, Returned), (Clustering_new, Returned),
       (Subdivide 3, Returned), (Cluster n, Returned), (Create_mesh, Returned),
       (Extract_surface, Returned)] \<and>
     files w' = files w"
  using assms
  by (auto simp: resampling_def bnd_Return_iff ext_Return_iff ret_iff)

lemma visualization_Return:
  assumes "visualization L expanded_mesh shell w = (Return x, w')"
  shows "calls w' = calls w @ [(Plotter_new False (1, 1), Returned), (Add_mesh None, Returned),
       (Add_points ''r'' 8 True, Returned), (Add_mesh (Some True), Returned),
       (Link_views, Returned), (Show_bounds, Returned), (Show, Returned)] \<and>
     files w' = files w"
  using assms
  by (auto simp: visualization_def Let_def bnd_Return_iff ext_Return_iff)

lemma write_swarms_Return:
  assumes "write_swarms L a uniform w = (Return x, w')"
  shows "create_pdb_from_points L (path_stem L (molecule a) @ ''_swarms.pdb'')
       (pv_points L uniform) = Return () \<and>
     calls w' = calls w @
       [(Create_pdb_from_points (path_stem L (molecule a) @ ''_swarms.pdb''), Returned)] \<and>
     files w' = (files w)(path_stem L (molecule a) @ ''_swarms.pdb'' \<mapsto> PDB (pv_points L uniform))"
  using assms
  by (auto simp: write_swarms_def Let_def write_call_Return_iff)

lemma main_Return_stages:
  assumes "main L a w = (Return (), w')"
  obtains m1 w1 m2 w2 m3 w3 obj w4 sh w5 sh' w6 e u w7 w8 where
    "surface_construction L a w = (Return m1, w1)"
    "initial_smoothing L m1 w1 = (Return m2, w2)"
    "refinement_loop L m2 w2 = (Return m3, w3)"
    "export_obj L a m3 w3 = (Return obj, w4)"
    "decimation L obj w4 = (Return sh, w5)"
    "expansion L (distance a) sh w5 = (Return sh', w6)"
    "resampling L (points a) sh' w6 = (Return (e, u), w7)"
    "visualization L e u w7 = (Return (), w8)"
    "write_swarms L a u w8 = (Return (), w')"
proof -
  from assms obtain m1 w1 where s1: "surface_construction L a w = (Return m1, w1)"
    and r1: "bnd (initial_smoothing L m1) (\<lambda>mesh.
     bnd (refinement_loop L mesh) (\<lambda>mesh.
     bnd (export_obj L a mesh) (\<lambda>obj_name.
     bnd (decimation L obj_name) (\<lambda>shell.
     bnd (expansion L (distance a) shell) (\<lambda>shell.
     bnd (resampling L (points a) shell) (\<lambda>(expanded_mesh, shell).
     bnd (visualization L expanded_mesh shell) (\<lambda>_.
     write_swarms L a shell))))))) w1 = (Return (), w')"
    unfolding main_def bnd_Return_iff by blast
  from r1 obtain m2 w2 where s2: "initial_smoothing L m1 w1 = (Return m2, w2)"
    and r2: "bnd (refinement_loop L m2) (\<lambda>mesh.
     bnd (export_obj L a mesh) (\<lambda>obj_name.
     bnd (decimation L obj_name) (\<lambda>shell.
     bnd (expansion L (distance a) shell) (\<lambda>shell.
     bnd (resampling L (points a) shell) (\<lambda>(expanded_mesh, shell).
     bnd (visualization L expanded_mesh shell) (\<lambda>_.
     write_swarms L a shell)))))) w2 = (Return (), w')"
    unfolding bnd_Return_iff[of "initial_smoothing L m1"] by blast
  from r2 obtain m3 w3 where s3: "refinement_loop L m2 w2 = (Return m3, w3)"
    and r3: "bnd (export_obj L a m3) (\<lambda>obj_name.
     bnd (decimation L obj_name) (\<lambda>shell.
     bnd (expansion L (distance a) shell) (\<lambda>shell.
     bnd (resampling L (points a) shell) (\<lambda>(expanded_mesh, shell).
     bnd (visualization L expanded_mesh shell) (\<lambda>_.
     write_swarms L a shell))))) w3 = (Return (), w')"
    unfolding bnd_Return_iff[of "refinement_loop L m2"] by blast
  from r3 obtain obj w4 where s4: "export_obj L a m3 w3 = (Return obj, w4)"
    and r4: "bnd (decimation L obj) (\<lambda>shell.
     bnd (expansion L (distance a) shell) (\<lambda>shell.
     bnd (resampling L (points a) shell) (\<lambda>(expanded_mesh, shell).
     bnd (visualization L expanded_mesh shell) (\<lambda>_.
     write_swarms L a shell)))) w4 = (Return (), w')"
    unfolding bnd_Return_iff[of "export_obj L a m3"] by blast
  from r4 obtain sh w5 where s5: "decimation L obj w4 = (Return sh, w5)"
    and r5: "bnd (expansion L (distance a) sh) (\<lambda>shell.
     bnd (resampling L (points a) shell) (\<lambda>(expanded_mesh, shell).
     bnd (visualization L expanded_mesh shell) (\<lambda>_.
     write_swarms L a shell))) w5 = (Return (), w')"
    unfolding bnd_Return_iff[of "decimation L obj"] by blast
  from r5 obtain sh' w6 where s6: "expansion L (distance a) sh w5 = (Return sh', w6)"
    and r6: "bnd (resampling L (points a) sh') (\<lambda>(expanded_mesh, shell).
     bnd (visualization L expanded_mesh shell) (\<lambda>_.
     write_swarms L a shell)) w6 = (Return (), w')"
    unfolding bnd_Return_iff[of "expansion L (distance a) sh"] by blast
  from r6 obtain e u w7 where s7: "resampling L (points a) sh' w6 = (Return (e, u), w7)"
    and r7: "bnd (visualization L e u) (\<lambda>_. write_swarms L a u) w7 = (Return (), w')"
    unfolding bnd_Return_iff[of "resampling L (points a) sh'"] by auto
  from r7 obtain w8 where s8: "visualization L e u w7 = (Return (), w8)"
    and s9: "write_swarms L a u w8 = (Return (), w')"
    unfolding bnd_Return_iff[of "visualization L e u"] by auto
  from s1 s2 s3 s4 s5 s6 s7 s8 s9 show thesis
    by (rule that)
qed

text \<open>The calls of a run of the script that returns, and the files it leaves.\<close>

lemma main_Return_calls:
  assumes "main L a w = (Return (), w')"
  shows "\<exists>d k mesh uniform. distance a = Finite d \<and>
     calls w' = calls w @ returning_calls a (path_stem L (molecule a)) k (nat (float_trunc d)) \<and>
     files w' = (files w)(path_stem L (molecule a) @ ''.obj'' \<mapsto> OBJ mesh,
        path_stem L (molecule a) @ ''_swarms.pdb'' \<mapsto> PDB (pv_points L uniform))"
proof -
  from assms obtain m1 w1 m2 w2 m3 w3 obj w4 sh w5 sh' w6 e u w7 w8 where
    s: "surface_construction L a w = (Return m1, w1)"
    "initial_smoothing L m1 w1 = (Return m2, w2)"
    "refinement_loop L m2 w2 = (Return m3, w3)"
    "export_obj L a m3 w3 = (Return obj, w4)"
    "decimation L obj w4 = (Return sh, w5)"
    "expansion L (distance a) sh w5 = (Return sh', w6)"
    "resampling L (points a) sh' w6 = (Return (e, u), w7)"
    "visualization L e u w7 = (Return (), w8)"
    "write_swarms L a u w8 = (Return (), w')"
    by (rule main_Return_stages)
  from expansion_Return_finite[OF s(6)] obtain d where d: "distance a = Finite d"
    by blast
  from surface_construction_Return[OF s(1)] obtain k where
    c1: "calls w1 = calls w @ [(ReadPDB_gauss (molecule a), Returned), (Compute_orientation, Returned),
        (CorrectNormals, Returned), (SplitSurfaces, Returned)]
        @ replicate (Suc k) (GetVolume, Returned)" and f1: "files w1 = files w"
    by blast
  note c2 = initial_smoothing_Return[OF s(2)]
  note c3 = refinement_loop_Return[OF s(3)]
  note c4 = export_obj_Return[OF s(4)]
  note c5 = decimation_Return[OF s(5)]
  note c6 = expansion_Return[OF s(6)[unfolded d]]
  note c7 = resampling_Return[OF s(7)]
  note c8 = visualization_Return[OF s(8)]
  note c9 = write_swarms_Return[OF s(9)]
  have "calls w' = calls w @ returning_calls a (path_stem L (molecule a)) k (nat (float_trunc d))"
    unfolding returning_calls_def
    using c1 c2 c3 c4 c5 c6 c7 c8 c9 by simp
  moreover have "files w' = (files w)(path_stem L (molecule a) @ ''.obj'' \<mapsto>
        OBJ (set_root (mark_faces m3)),
        path_stem L (molecule a) @ ''_swarms.pdb'' \<mapsto> PDB (pv_points L u))"
    using f1 c2 c3 c4 c5 c6 c7 c8 c9 by simp
  ultimately show ?thesis
    using d by blast
qed

lemmas script_defs = surface_construction_def select_component_def print_volumes_def
  initial_smoothing_def refinement_loop_def refinement_round_def export_obj_def decimation_def
  expansion_def expansion_step_def resampling_def visualization_def write_swarms_def

lemmas sample_run_defs = main_def script_defs prog_defs sample_defs py_range_def float_trunc_def
  vtkWarpVector_new_def select_all_vertices_def mark_faces_def set_root_def
  posix_stem_def path_name_def enumerate_eq_zip upto_rec1 Let_def

text \<open>The script on the sample environment, for \<^verbatim>\<open>data/1abc.pdb\<close>, distance 1 and 1 point.\<close>

lemma sample_main:
  "main sample_library (sample_args 1) empty_world =
    (Return (),
     \<lparr>stdout =
        [Orientation_report 2 True True, Volume_report 0 (Finite 1),
         Volume_report 1 (Finite 3), Iteration_report 1 1 1 1,
         Iteration_report 2 1 1 1, Iteration_report 3 1 1 1,
         Iteration_report 4 1 1 1, Iteration_report 5 1 1 1,
         Decimation_report 1 1, Expanding_report 1],
      calls =
        [(ReadPDB_gauss ''data/1abc.pdb'', Returned),
         (Compute_orientation, Returned), (CorrectNormals, Returned),
         (SplitSurfaces, Returned), (GetVolume, Returned),
         (GetVolume, Returned), (Smooth 5 False True, Returned),
         (Coarse_dense 2 3, Returned), (Coarse_flat (1 / 10) 3, Returned),
         (Smooth 3 True False, Returned), (Coarse_dense 2 3, Returned),
         (Coarse_flat (1 / 10) 3, Returned),
         (Smooth 3 True False, Returned), (Coarse_dense 2 3, Returned),
         (Coarse_flat (1 / 10) 3, Returned),
         (Smooth 3 True False, Returned), (Coarse_dense 2 3, Returned),
         (Coarse_flat (1 / 10) 3, Returned),
         (Smooth 3 True False, Returned), (Coarse_dense 2 3, Returned),
         (Coarse_flat (1 / 10) 3, Returned),
         (Smooth 3 True False, Returned),
         (WriteOBJ ''1abc.obj'', Returned),
         (Pv_read ''1abc.obj'', Returned),
         (Decimate (97 / 100) True, Returned),
         (Extract_surface, Returned), (Compute_normals, Returned),
         (WarpVector_Update (Some (0, 0, 0, FIELD_ASSOCIATION_POINTS, NORMALS)) (Some 2),
          Returned),
         (Pv_wrap, Returned), (Extract_surface, Returned),
         (Clustering_new, Returned), (Subdivide 3, Returned),
         (Cluster 1, Returned), (Create_mesh, Returned),
         (Extract_surface, Returned),
         (Plotter_new False (1, 1), Returned),
         (Add_mesh None, Returned), (Add_points ''r'' 8 True, Returned),
         (Add_mesh (Some True), Returned), (Link_views, Returned),
         (Show_bounds, Returned), (Show, Returned),
         (Create_pdb_from_points ''1abc_swarms.pdb'', Returned)],
      files =
        [''1abc.obj'' \<mapsto>
           OBJ \<lparr>vertexIDs = [\<lparr>vertex_data = 1, selected = True\<rparr>],
                faceIDs = [\<lparr>face_data = 1, marker = 23\<rparr>],
                getRoot = \<lparr>ishole = True, root_marker = - 1\<rparr>,
                geometry = 0\<rparr>,
         ''1abc_swarms.pdb'' \<mapsto> PDB [3]]\<rparr>)"
  by (simp add: sample_run_defs)

text \<open>The same run when the viewer's window is never closed.\<close>

lemma sample_main_blocked:
  "main (sample_library\<lparr>show_window := \<lambda>p. Blocked\<rparr>) (sample_args 1) empty_world =
    (Blocked,
     \<lparr>stdout =
        [Orientation_report 2 True True, Volume_report 0 (Finite 1),
         Volume_report 1 (Finite 3), Iteration_report 1 1 1 1,
         Iteration_report 2 1 1 1, Iteration_report 3 1 1 1,
         Iteration_report 4 1 1 1, Iteration_report 5 1 1 1,
         Decimation_report 1 1, Expanding_report 1],
      calls =
        [(ReadPDB_gauss ''data/1abc.pdb'', Returned),
         (Compute_orientation, Returned), (CorrectNormals, Returned),
         (SplitSurfaces, Returned), (GetVolume, Returned),
         (GetVolume, Returned), (Smooth 5 False True, Returned),
         (Coarse_dense 2 3, Returned), (Coarse_flat (1 / 10) 3, Returned),
         (Smooth 3 True False, Returned), (Coarse_dense 2 3, Returned),
         (Coarse_flat (1 / 10) 3, Returned),
         (Smooth 3 True False, Returned), (Coarse_dense 2 3, Returned),
         (Coarse_flat (1 / 10) 3, Returned),
         (Smooth 3 True False, Returned), (Coarse_dense 2 3, Returned),
         (Coarse_flat (1 / 10) 3, Returned),
         (Smooth 3 True False, Returned), (Coarse_dense 2 3, Returned),
         (Coarse_flat (1 / 10) 3, Returned),
         (Smooth 3 True False, Returned),
         (WriteOBJ ''1abc.obj'', Returned),
         (Pv_read ''1abc.obj'', Returned),
         (Decimate (97 / 100) True, Returned),
         (Extract_surface, Returned), (Compute_normals, Returned),
         (WarpVector_Update (Some (0, 0, 0, FIELD_ASSOCIATION_POINTS, NORMALS)) (Some 2),
          Returned),
         (Pv_wrap, Returned), (Extract_surface, Returned),
         (Clustering_new, Returned), (Subdivide 3, Returned),
         (Cluster 1, Returned), (Create_mesh, Returned),
         (Extract_surface, Returned),
         (Plotter_new False (1, 1), Returned),
         (Add_mesh None, Returned), (Add_points ''r'' 8 True, Returned),
         (Add_mesh (Some True), Returned), (Link_views, Returned),
         (Show_bounds, Returned), (Show, NeverReturned)],
      files =
        [''1abc.obj'' \<mapsto>
           OBJ \<lparr>vertexIDs = [\<lparr>vertex_data = 1, selected = True\<rparr>],
                faceIDs = [\<lparr>face_data = 1, marker = 23\<rparr>],
                getRoot = \<lparr>ishole = True, root_marker = - 1\<rparr>,
                geometry = 0\<rparr>]\<rparr>)"
  by (simp add: sample_run_defs)

text \<open>The same run when the molecule's surface has no component.\<close>

lemma sample_main_no_component:
  "main (sample_library\<lparr>splitSurfaces := \<lambda>m. Return []\<rparr>) (sample_args 1) empty_world =
    (Raise IndexError,
     \<lparr>stdout = [Orientation_report 2 True True],
      calls =
        [(ReadPDB_gauss ''data/1abc.pdb'', Returned),
         (Compute_orientation, Returned), (CorrectNormals, Returned),
         (SplitSurfaces, Returned)],
      files = Map.empty\<rparr>)"
  by (simp add: sample_run_defs)

section \<open>The preparation before the refinement loop\<close>

text \<open>
  C10. Before the refinement loop the script sets \<^verbatim>\<open>selected\<close> on every vertex of the
  chosen component, changing nothing else of the mesh, and calls
  \<^verbatim>\<open>smooth(max_iter=5, preserve_ridges=False, verbose=True)\<close> once on the mesh so prepared.
  In a run of the script that returns, this one call stands between the choice of the
  component and the refinement loop: it is made on the chosen component with every vertex
  selected, and the loop starts on its result and issues its 15 calls right after it.
\<close>

theorem initial_smoothing_prepares:
  "(\<forall>v \<in> set (vertexIDs (select_all_vertices mesh)). selected v) \<and>
   map vertex_data (vertexIDs (select_all_vertices mesh)) = map vertex_data (vertexIDs mesh) \<and>
   faceIDs (select_all_vertices mesh) = faceIDs mesh \<and>
   getRoot (select_all_vertices mesh) = getRoot mesh \<and>
   geometry (select_all_vertices mesh) = geometry mesh \<and>
   initial_smoothing L mesh w =
     (smooth L 5 False True (select_all_vertices mesh),
      w\<lparr>calls := calls w @
        [(Smooth 5 False True, outcome_of (smooth L 5 False True (select_all_vertices mesh)))]\<rparr>) \<and>
   (main L a w = (Return (), w') \<longrightarrow>
      (\<exists>component w1 smoothed w2 refined w3.
         surface_construction L a w = (Return component, w1) \<and>
         smooth L 5 False True (select_all_vertices component) = Return smoothed \<and>
         calls w2 = calls w1 @ [(Smooth 5 False True, Returned)] \<and>
         refinement_loop L smoothed w2 = (Return refined, w3) \<and>
         calls w3 = calls w2 @ concat (replicate 5
           [(Coarse_dense 2 3, Returned), (Coarse_flat (1 / 10) 3, Returned),
            (Smooth 3 True False, Returned)])))"
proof (intro conjI impI)
  show "\<forall>v \<in> set (vertexIDs (select_all_vertices mesh)). selected v"
    by (rule select_all_vertices_selected)
  show "initial_smoothing L mesh w =
     (smooth L 5 False True (select_all_vertices mesh),
      w\<lparr>calls := calls w @
        [(Smooth 5 False True, outcome_of (smooth L 5 False True (select_all_vertices mesh)))]\<rparr>)"
    by (rule initial_smoothing_run)
next
  assume "main L a w = (Return (), w')"
  then obtain m1 w1 m2 w2 m3 w3 where
    s: "surface_construction L a w = (Return m1, w1)"
      "initial_smoothing L m1 w1 = (Return m2, w2)"
      "refinement_loop L m2 w2 = (Return m3, w3)"
    by (rule main_Return_stages)
  from initial_smoothing_Return[OF s(2)] refinement_loop_Return[OF s(3)] s(1) s(3)
  show "\<exists>component w1 smoothed w2 refined w3.
         surface_construction L a w = (Return component, w1) \<and>
         smooth L 5 False True (select_all_vertices component) = Return smoothed \<and>
         calls w2 = calls w1 @ [(Smooth 5 False True, Returned)] \<and>
         refinement_loop L smoothed w2 = (Return refined, w3) \<and>
         calls w3 = calls w2 @ concat (replicate 5
           [(Coarse_dense 2 3, Returned), (Coarse_flat (1 / 10) 3, Returned),
            (Smooth 3 True False, Returned)])"
    by blast
qed (simp_all add: select_all_vertices_frame)

text \<open>
  On the sample environment: both vertices of a mesh get selected; in the run of the
  script the chosen component is the mesh of the one point 1, and the call of \<^verbatim>\<open>smooth\<close>
  with 5 iterations is the seventh call, just before the first round of the loop.
\<close>

theorem initial_smoothing_prepares_witness:
  "vertexIDs (select_all_vertices (sample_mesh [1, 10])) =
     [\<lparr>vertex_data = 1, selected = True\<rparr>, \<lparr>vertex_data = 10, selected = True\<rparr>] \<and>
   list_all selected (vertexIDs (select_all_vertices (sample_mesh [1, 10]))) \<and>
   fst (initial_smoothing sample_library (sample_mesh [1, 10]) empty_world) =
     Return (select_all_vertices (sample_mesh [1, 10])) \<and>
   calls (snd (initial_smoothing sample_library (sample_mesh [1, 10]) empty_world)) =
     [(Smooth 5 False True, Returned)] \<and>
   fst (main sample_library (sample_args 1) empty_world) = Return () \<and>
   fst (surface_construction sample_library (sample_args 1) empty_world) =
     Return (sample_mesh [1]) \<and>
   take 4 (drop 6 (calls (snd (main sample_library (sample_args 1) empty_world)))) =
     [(Smooth 5 False True, Returned), (Coarse_dense 2 3, Returned),
      (Coarse_flat (1 / 10) 3, Returned), (Smooth 3 True False, Returned)]"
proof -
  note inst = initial_smoothing_prepares[of "sample_mesh [1, 10]" sample_library empty_world
      "sample_args 1" empty_world]
  have sel: "list_all selected (vertexIDs (select_all_vertices (sample_mesh [1, 10])))"
    using inst by (simp add: list_all_iff)
  have sm: "initial_smoothing sample_library (sample_mesh [1, 10]) empty_world =
     (Return (select_all_vertices (sample_mesh [1, 10])),
      empty_world\<lparr>calls := [(Smooth 5 False True, Returned)]\<rparr>)"
    using inst by (simp add: sample_library_def empty_world_def)
  define W where "W = snd (main sample_library (sample_args 1) empty_world)"
  have run: "main sample_library (sample_args 1) empty_world = (Return (), W)"
    by (simp add: W_def sample_main)
  from initial_smoothing_prepares[of "sample_mesh [1, 10]" sample_library empty_world
      "sample_args 1" W, THEN conjunct2, THEN conjunct2, THEN conjunct2, THEN conjunct2,
      THEN conjunct2, THEN conjunct2, rule_format, OF run]
  obtain component w1 where
    "surface_construction sample_library (sample_args 1) empty_world = (Return component, w1)"
    by blast
  then have comp: "fst (surface_construction sample_library (sample_args 1) empty_world) =
      Return (sample_mesh [1])"
    by (simp add: construction_defs prog_defs sample_defs)
  have seq: "take 4 (drop 6 (calls W)) =
     [(Smooth 5 False True, Returned), (Coarse_dense 2 3, Returned),
      (Coarse_flat (1 / 10) 3, Returned), (Smooth 3 True False, Returned)]"
    by (simp add: W_def sample_main eval_nat_numeral)
  show ?thesis
    using sel comp seq
    by (simp add: sm run) (simp add: select_all_vertices_def sample_mesh_def)
qed

section \<open>The calls of every run\<close>

lemma written_files_append: "written_files (a @ b) = written_files a @ written_files b"
  by (simp add: written_files_def)

lemma logsD:
  assumes "logs Q m" and run: "m w = (r, w')"
  shows "\<exists>cs. calls w' = calls w @ cs \<and> Q (outcome_of r) cs \<and>
     (\<forall>name. name \<notin> set (written_files cs) \<longrightarrow> files w' name = files w name)"
proof -
  from assms(1) have "case m w of (r, w') \<Rightarrow>
     \<exists>cs. calls w' = calls w @ cs \<and> Q (outcome_of r) cs \<and>
       (\<forall>name. name \<notin> set (written_files cs) \<longrightarrow> files w' name = files w name)"
    unfolding logs_def by (rule spec)
  then show ?thesis
    by (simp add: run)
qed

lemma logsI:
  assumes "\<And>w r w'. m w = (r, w') \<Longrightarrow>
    \<exists>cs. calls w' = calls w @ cs \<and> Q (outcome_of r) cs \<and>
      (\<forall>name. name \<notin> set (written_files cs) \<longrightarrow> files w' name = files w name)"
  shows "logs Q m"
  unfolding logs_def
proof
  fix w
  obtain r w' where run: "m w = (r, w')"
    by (cases "m w")
  from assms[OF run] show "case m w of (r, w') \<Rightarrow>
     \<exists>cs. calls w' = calls w @ cs \<and> Q (outcome_of r) cs \<and>
       (\<forall>name. name \<notin> set (written_files cs) \<longrightarrow> files w' name = files w name)"
    by (simp add: run)
qed

lemma logs_ret: "composable Q \<Longrightarrow> logs Q (ret x)"
  by (simp add: logs_def ret_def composable_def)

lemma logs_lift: "composable Q \<Longrightarrow> logs Q (lift r)"
  by (simp add: logs_def lift_def composable_def)

lemma logs_print: "composable Q \<Longrightarrow> logs Q (print msg)"
  by (simp add: logs_def print_def composable_def)

lemma logs_load_file: "composable Q \<Longrightarrow> logs Q (load_file name)"
  by (simp add: logs_def load_file_def composable_def)

lemma logs_index0: "composable Q \<Longrightarrow> logs Q (index0 xs)"
  by (cases xs) (simp_all add: index0_def logs_ret logs_lift)

lemma logs_ext: "Q (outcome_of r) [(c, outcome_of r)] \<Longrightarrow> logs Q (ext c r)"
  by (simp add: logs_def ext_def)

lemma logs_write_call:
  assumes "Q (outcome_of r) [(c, outcome_of r)]"
    and "c = WriteOBJ name \<or> c = Create_pdb_from_points name"
  shows "logs Q (write_call c name content r)"
  using assms
  by (cases r) (auto simp: logs_def write_call_def bnd_def ext_def store_file_def written_files_def)

text \<open>
  Sequencing: when \<open>m\<close> returns, the run goes on with \<open>f\<close>; when it does not, the run
  ends there.
\<close>

lemma logs_seq:
  assumes m: "logs Q1 m" and f: "\<And>x. logs Q2 (f x)"
    and seq: "\<And>oc cs1 cs2. Q1 Returned cs1 \<Longrightarrow> Q2 oc cs2 \<Longrightarrow> Q oc (cs1 @ cs2)"
    and stop: "\<And>oc cs. oc \<noteq> Returned \<Longrightarrow> Q1 oc cs \<Longrightarrow> Q oc cs"
  shows "logs Q (bnd m f)"
proof (rule logsI)
  fix w r' w'
  assume whole: "bnd m f w = (r', w')"
  obtain r w1 where run: "m w = (r, w1)"
    by (cases "m w")
  from logsD[OF m run] obtain cs1 where
    cs1: "calls w1 = calls w @ cs1" "Q1 (outcome_of r) cs1"
      "\<forall>name. name \<notin> set (written_files cs1) \<longrightarrow> files w1 name = files w name"
    by blast
  show "\<exists>cs. calls w' = calls w @ cs \<and> Q (outcome_of r') cs \<and>
      (\<forall>name. name \<notin> set (written_files cs) \<longrightarrow> files w' name = files w name)"
  proof (cases r)
    case (Return x)
    with whole run have run2: "f x w1 = (r', w')"
      by (simp add: bnd_def)
    from logsD[OF f run2] obtain cs2 where
      cs2: "calls w' = calls w1 @ cs2" "Q2 (outcome_of r') cs2"
        "\<forall>name. name \<notin> set (written_files cs2) \<longrightarrow> files w' name = files w1 name"
      by blast
    from cs1 cs2 Return have "Q (outcome_of r') (cs1 @ cs2)"
      by (simp add: seq)
    moreover from cs1 cs2 have "calls w' = calls w @ (cs1 @ cs2)"
      by simp
    moreover from cs1 cs2 have
      "\<forall>name. name \<notin> set (written_files (cs1 @ cs2)) \<longrightarrow> files w' name = files w name"
      by (simp add: written_files_append)
    ultimately show ?thesis
      by blast
  next
    case (Raise e)
    with whole run have "r' = Raise e \<and> w' = w1"
      by (simp add: bnd_def)
    moreover from cs1 Raise have "Q (Raised e) cs1"
      by (simp add: stop)
    ultimately show ?thesis
      using cs1 by auto
  next
    case Blocked
    with whole run have "r' = Blocked \<and> w' = w1"
      by (simp add: bnd_def)
    moreover from cs1 Blocked have "Q NeverReturned cs1"
      by (simp add: stop)
    ultimately show ?thesis
      using cs1 by auto
  qed
qed

lemma logs_bnd:
  assumes Q: "composable Q" and m: "logs Q m" and f: "\<And>x. logs Q (f x)"
  shows "logs Q (bnd m f)"
  using m f
proof (rule logs_seq)
  fix oc cs1 cs2
  assume "Q Returned cs1" "Q oc cs2"
  with Q show "Q oc (cs1 @ cs2)"
    by (simp add: composable_def)
qed

lemma logs_weaken:
  assumes "logs Q m" and "\<And>oc cs. Q oc cs \<Longrightarrow> Q' oc cs"
  shows "logs Q' m"
proof (rule logsI)
  fix w r w'
  assume "m w = (r, w')"
  from logsD[OF assms(1) this] assms(2)
  show "\<exists>cs. calls w' = calls w @ cs \<and> Q' (outcome_of r) cs \<and>
      (\<forall>name. name \<notin> set (written_files cs) \<longrightarrow> files w' name = files w name)"
    by blast
qed

lemma logs_for_each:
  assumes Q: "composable Q" and body: "\<And>i s. logs Q (body i s)"
  shows "logs Q (for_each xs body s)"
  by (induction xs arbitrary: s) (simp_all add: logs_ret logs_bnd Q body)

lemma logs_case_prod: "(\<And>x y. logs Q (f x y)) \<Longrightarrow> logs Q (case p of (x, y) \<Rightarrow> f x y)"
  by (cases p) simp

lemmas logs_intros = logs_bnd logs_for_each logs_ret logs_lift logs_print
  logs_load_file logs_index0 logs_case_prod

text \<open>
  The script itself adds to the log nothing but the calls it makes: a property of logs that
  holds of every single call of the script and is kept by sequencing holds of the script.
\<close>

lemma decimations_append: "decimations (a @ b) = decimations a @ decimations b"
  by (simp add: decimations_def)

lemma composable_decimations:
  "composable (\<lambda>oc cs. set (decimations cs) \<subseteq> {(97 / 100, True)})"
  by (simp add: composable_def decimations_append) (simp add: decimations_def)

lemma logs_main_decimations:
  "logs (\<lambda>oc cs. set (decimations cs) \<subseteq> {(97 / 100, True)}) (main L a)"
  unfolding main_def script_defs Let_def case_prod_beta
  by (intro logs_intros logs_ext logs_write_call composable_decimations)
    (simp_all add: decimations_def)

section \<open>Decimation\<close>

lemma decimations_Nil: "decimations [] = []"
  by (simp add: decimations_def)

lemma decimations_Cons:
  "decimations ((c, oc) # cs) =
     (case c of Decimate target vp \<Rightarrow> [(target, vp)] | _ \<Rightarrow> []) @ decimations cs"
  by (simp add: decimations_def)

lemma decimations_replicate:
  "decimations [x] = [] \<Longrightarrow> decimations (replicate n x) = []"
  by (induction n) (simp_all add: decimations_Nil, simp add: decimations_def)

lemma decimations_concat_replicate:
  "decimations K = [] \<Longrightarrow> decimations (concat (replicate n K)) = []"
  by (induction n) (simp_all add: decimations_append decimations_Nil)

lemmas decimations_simps = decimations_append decimations_Nil decimations_Cons
  decimations_replicate decimations_concat_replicate

lemma main_Return_decimation:
  assumes "main L a w = (Return (), w')"
  shows "\<exists>refined mesh decimated shell.
     pv_read L (path_stem L (molecule a) @ ''.obj'') (Some (OBJ (set_root (mark_faces refined)))) =
       Return mesh \<and>
     decimate L (97 / 100) True mesh = Return decimated \<and>
     extract_surface L decimated = Return shell"
proof -
  from assms obtain m1 w1 m2 w2 m3 w3 obj w4 sh w5 where
    s: "export_obj L a m3 w3 = (Return obj, w4)" "decimation L obj w4 = (Return sh, w5)"
    by (rule main_Return_stages)
  from export_obj_Return[OF s(1)] have
    "obj = path_stem L (molecule a) @ ''.obj''" "files w4 obj = Some (OBJ (set_root (mark_faces m3)))"
    by simp_all
  with decimation_Return[OF s(2)] show ?thesis
    by auto
qed

text \<open>
  C5. In every run of the script, whatever the command line and whatever the libraries
  do, every \<^verbatim>\<open>decimate\<close> call has the target reduction 0.97 and volume preservation on. A
  run that returns has made exactly one such call, on the mesh that \<^verbatim>\<open>pv.read\<close> made of the
  \<^verbatim>\<open>.obj\<close> file the script had just written, and has extracted the surface of the result.
  A decimation stage that returns has done so for the file of the name it was given.
\<close>

theorem decimation_fixed:
  "(main L a w = (r, w') \<longrightarrow>
      (\<exists>cs. calls w' = calls w @ cs \<and> set (decimations cs) \<subseteq> {(97 / 100, True)})) \<and>
   (main L a w = (Return (), w') \<longrightarrow>
      (\<exists>cs. calls w' = calls w @ cs \<and> decimations cs = [(97 / 100, True)]) \<and>
      (\<exists>refined mesh decimated shell.
         pv_read L (path_stem L (molecule a) @ ''.obj'')
           (Some (OBJ (set_root (mark_faces refined)))) = Return mesh \<and>
         decimate L (97 / 100) True mesh = Return decimated \<and>
         extract_surface L decimated = Return shell)) \<and>
   (decimation L name w = (Return shell, w') \<longrightarrow>
      (\<exists>mesh decimated. pv_read L name (files w name) = Return mesh \<and>
         decimate L (97 / 100) True mesh = Return decimated \<and>
         extract_surface L decimated = Return shell))"
proof (intro conjI impI)
  assume "main L a w = (r, w')"
  from logsD[OF logs_main_decimations this]
  show "\<exists>cs. calls w' = calls w @ cs \<and> set (decimations cs) \<subseteq> {(97 / 100, True)}"
    by blast
next
  assume run: "main L a w = (Return (), w')"
  from main_Return_calls[OF run] obtain cs where
    cs: "calls w' = calls w @ cs" and
    shape: "\<exists>k n. cs = returning_calls a (path_stem L (molecule a)) k n"
    by blast
  from shape have "decimations cs = [(97 / 100, True)]"
    by (auto simp: returning_calls_def decimations_simps)
  with cs show "\<exists>cs. calls w' = calls w @ cs \<and> decimations cs = [(97 / 100, True)]"
    by blast
  from run show "\<exists>refined mesh decimated shell.
         pv_read L (path_stem L (molecule a) @ ''.obj'')
           (Some (OBJ (set_root (mark_faces refined)))) = Return mesh \<and>
         decimate L (97 / 100) True mesh = Return decimated \<and>
         extract_surface L decimated = Return shell"
    by (rule main_Return_decimation)
next
  assume "decimation L name w = (Return shell, w')"
  from decimation_Return[OF this]
  show "\<exists>mesh decimated. pv_read L name (files w name) = Return mesh \<and>
         decimate L (97 / 100) True mesh = Return decimated \<and>
         extract_surface L decimated = Return shell"
    by blast
qed

text \<open>
  On the sample environment: the one \<^verbatim>\<open>decimate\<close> call of the run is
  \<^verbatim>\<open>decimate(0.97, volume_preservation=True)\<close>, also when the run never gets past the viewer.
\<close>

theorem decimation_fixed_witness:
  "fst (main sample_library (sample_args 1) empty_world) = Return () \<and>
   decimations (calls (snd (main sample_library (sample_args 1) empty_world))) =
     [(97 / 100, True)] \<and>
   fst (main (sample_library\<lparr>show_window := \<lambda>p. Blocked\<rparr>) (sample_args 1) empty_world) =
     Blocked \<and>
   set (decimations (calls (snd (main (sample_library\<lparr>show_window := \<lambda>p. Blocked\<rparr>)
     (sample_args 1) empty_world)))) \<subseteq> {(97 / 100, True)} \<and>
   fst (decimation sample_library ''1abc.obj''
     (empty_world\<lparr>files := [''1abc.obj'' \<mapsto> OBJ (sample_mesh [1])]\<rparr>)) = Return [1] \<and>
   pv_read sample_library ''1abc.obj'' (Some (OBJ (sample_mesh [1]))) = Return [1] \<and>
   decimate sample_library (97 / 100) True [1] = Return [1]"
proof -
  let ?B = "sample_library\<lparr>show_window := \<lambda>p. Blocked\<rparr>"
  let ?w = "empty_world\<lparr>files := [''1abc.obj'' \<mapsto> OBJ (sample_mesh [1])]\<rparr>"
  define W where "W = snd (main sample_library (sample_args 1) empty_world)"
  have run: "main sample_library (sample_args 1) empty_world = (Return (), W)"
    by (simp add: W_def sample_main)
  from decimation_fixed[of sample_library "sample_args 1" empty_world "Return ()" W
      "''1abc.obj''" "[1]", THEN conjunct2, THEN conjunct1, rule_format, OF run]
  have a: "decimations (calls W) = [(97 / 100, True)]"
    by (auto simp: empty_world_def)
  define V where "V = snd (main ?B (sample_args 1) empty_world)"
  have blocked: "main ?B (sample_args 1) empty_world = (Blocked, V)"
    by (simp add: V_def sample_main_blocked)
  from decimation_fixed[of ?B "sample_args 1" empty_world Blocked V
      "''1abc.obj''" "[1]", THEN conjunct1, rule_format, OF blocked]
  have b: "set (decimations (calls V)) \<subseteq> {(97 / 100, True)}"
    by (auto simp: empty_world_def)
  define U where "U = snd (decimation sample_library ''1abc.obj'' ?w)"
  have stage: "decimation sample_library ''1abc.obj'' ?w = (Return [1], U)"
    by (simp add: U_def decimation_def prog_defs sample_defs)
  from decimation_fixed[of sample_library "sample_args 1" ?w "Return ()" U
      "''1abc.obj''" "[1]", THEN conjunct2, THEN conjunct2, rule_format, OF stage]
  obtain mesh decimated where
    "pv_read sample_library ''1abc.obj'' (files ?w ''1abc.obj'') = Return mesh"
    "decimate sample_library (97 / 100) True mesh = Return decimated"
    "extract_surface sample_library decimated = Return [1]"
    by blast
  then have c: "pv_read sample_library ''1abc.obj'' (Some (OBJ (sample_mesh [1]))) = Return [1] \<and>
      decimate sample_library (97 / 100) True [1] = Return [1]"
    by (auto simp: sample_defs)
  from a b c show ?thesis
    by (simp add: run blocked stage)
qed

section \<open>The output file\<close>

lemma written_pdbs_append: "written_pdbs (a @ b) = written_pdbs a @ written_pdbs b"
  by (simp add: written_pdbs_def)

lemma written_pdbs_Nil: "written_pdbs [] = []"
  by (simp add: written_pdbs_def)

lemma written_pdbs_Cons:
  "written_pdbs ((c, oc) # cs) =
     (case c of Create_pdb_from_points name \<Rightarrow> [name] | _ \<Rightarrow> []) @ written_pdbs cs"
  by (simp add: written_pdbs_def)

lemma written_pdbs_replicate:
  "written_pdbs [x] = [] \<Longrightarrow> written_pdbs (replicate n x) = []"
  by (induction n) (simp_all add: written_pdbs_Nil, simp add: written_pdbs_def)

lemma written_pdbs_concat_replicate:
  "written_pdbs K = [] \<Longrightarrow> written_pdbs (concat (replicate n K)) = []"
  by (induction n) (simp_all add: written_pdbs_append written_pdbs_Nil)

lemmas written_pdbs_simps = written_pdbs_append written_pdbs_Nil written_pdbs_Cons
  written_pdbs_replicate written_pdbs_concat_replicate

lemma composable_written_pdbs: "composable (\<lambda>oc cs. set (written_pdbs cs) \<subseteq> S)"
  by (simp add: composable_def written_pdbs_append written_pdbs_Nil)

lemma logs_main_written_pdbs:
  "logs (\<lambda>oc cs. set (written_pdbs cs) \<subseteq> {path_stem L (molecule a) @ ''_swarms.pdb''}) (main L a)"
  unfolding main_def script_defs Let_def case_prod_beta
  by (intro logs_intros logs_ext logs_write_call composable_written_pdbs)
    (simp_all add: written_pdbs_simps)

text \<open>
  C7. In every run of the script, every call of \<^verbatim>\<open>create_pdb_from_points\<close> names the file
  \<^verbatim>\<open><stem>_swarms.pdb\<close>, where the stem is \<^verbatim>\<open>Path(args.molecule).stem\<close>; a run that returns
  has made exactly one such call and leaves a point file under this name.
\<close>

theorem swarms_file_name:
  "(main L a w = (r, w') \<longrightarrow>
      (\<exists>cs. calls w' = calls w @ cs \<and>
         set (written_pdbs cs) \<subseteq> {path_stem L (molecule a) @ ''_swarms.pdb''})) \<and>
   (main L a w = (Return (), w') \<longrightarrow>
      (\<exists>cs pts. calls w' = calls w @ cs \<and>
         written_pdbs cs = [path_stem L (molecule a) @ ''_swarms.pdb''] \<and>
         files w' (path_stem L (molecule a) @ ''_swarms.pdb'') = Some (PDB pts)))"
proof (intro conjI impI)
  assume "main L a w = (r, w')"
  from logsD[OF logs_main_written_pdbs this]
  show "\<exists>cs. calls w' = calls w @ cs \<and>
      set (written_pdbs cs) \<subseteq> {path_stem L (molecule a) @ ''_swarms.pdb''}"
    by blast
next
  assume "main L a w = (Return (), w')"
  from main_Return_calls[OF this] obtain cs mesh uniform where
    cs: "calls w' = calls w @ cs" and
    shape: "\<exists>k n. cs = returning_calls a (path_stem L (molecule a)) k n" and
    files: "files w' = (files w)(path_stem L (molecule a) @ ''.obj'' \<mapsto> OBJ mesh,
        path_stem L (molecule a) @ ''_swarms.pdb'' \<mapsto> PDB (pv_points L uniform))"
    by blast
  from shape have "written_pdbs cs = [path_stem L (molecule a) @ ''_swarms.pdb'']"
    by (auto simp: returning_calls_def written_pdbs_simps)
  moreover from files have
    "files w' (path_stem L (molecule a) @ ''_swarms.pdb'') = Some (PDB (pv_points L uniform))"
    by simp
  ultimately show "\<exists>cs pts. calls w' = calls w @ cs \<and>
      written_pdbs cs = [path_stem L (molecule a) @ ''_swarms.pdb''] \<and>
      files w' (path_stem L (molecule a) @ ''_swarms.pdb'') = Some (PDB pts)"
    using cs by blast
qed

text \<open>
  On the sample environment the molecule is \<^verbatim>\<open>data/1abc.pdb\<close>: its stem is \<^verbatim>\<open>1abc\<close> and the
  points are written to \<^verbatim>\<open>1abc_swarms.pdb\<close>.
\<close>

theorem swarms_file_name_witness:
  "fst (main sample_library (sample_args 1) empty_world) = Return () \<and>
   path_stem sample_library (molecule (sample_args 1)) = ''1abc'' \<and>
   written_pdbs (calls (snd (main sample_library (sample_args 1) empty_world))) =
     [''1abc_swarms.pdb''] \<and>
   set (written_pdbs (calls (snd (main sample_library (sample_args 1) empty_world)))) \<subseteq>
     {''1abc_swarms.pdb''} \<and>
   files (snd (main sample_library (sample_args 1) empty_world)) ''1abc_swarms.pdb'' =
     Some (PDB [3])"
proof -
  define W where "W = snd (main sample_library (sample_args 1) empty_world)"
  have run: "main sample_library (sample_args 1) empty_world = (Return (), W)"
    by (simp add: W_def sample_main)
  have stem: "path_stem sample_library (molecule (sample_args 1)) = ''1abc''"
    by (simp add: sample_defs posix_stem_def path_name_def)
  from swarms_file_name[of sample_library "sample_args 1" empty_world "Return ()" W,
      THEN conjunct2, rule_format, OF run]
  obtain cs pts where "calls W = calls empty_world @ cs"
    "written_pdbs cs = [path_stem sample_library (molecule (sample_args 1)) @ ''_swarms.pdb'']"
    "files W (path_stem sample_library (molecule (sample_args 1)) @ ''_swarms.pdb'') =
       Some (PDB pts)"
    by blast
  then have a: "written_pdbs (calls W) = [''1abc_swarms.pdb'']"
    and b: "files W ''1abc_swarms.pdb'' = Some (PDB pts)"
    by (simp_all add: stem empty_world_def)
  from swarms_file_name[of sample_library "sample_args 1" empty_world "Return ()" W,
      THEN conjunct1, rule_format, OF run]
  have c: "set (written_pdbs (calls W)) \<subseteq> {''1abc_swarms.pdb''}"
    by (auto simp: stem empty_world_def)
  have "files W ''1abc_swarms.pdb'' = Some (PDB [3])"
    by (simp add: W_def sample_main)
  then show ?thesis
    using a c stem by (simp add: run)
qed

section \<open>Failures\<close>

lemma uncaught_Cons:
  "uncaught oc ((c, oc') # cs) =
     (if cs = [] then oc' = Returned \<or> oc' = oc else oc' = Returned \<and> uncaught oc cs)"
  by (cases cs) auto

lemma uncaught_append:
  "uncaught Returned cs1 \<Longrightarrow> uncaught oc cs2 \<Longrightarrow> uncaught oc (cs1 @ cs2)"
proof (induction cs1)
  case Nil
  then show ?case by simp
next
  case (Cons x cs1)
  obtain c oc' where x: "x = (c, oc')"
    by (cases x)
  from Cons.prems(1) have "oc' = Returned" and "uncaught Returned cs1"
    by (auto simp: x uncaught_Cons split: if_splits)
  with Cons.IH Cons.prems(2) show ?case
    by (simp add: x uncaught_Cons)
qed

lemma composable_uncaught: "composable uncaught"
  by (simp add: composable_def uncaught_append)

lemma logs_main_uncaught: "logs uncaught (main L a)"
  unfolding main_def script_defs Let_def case_prod_beta
  by (intro logs_intros logs_ext logs_write_call composable_uncaught) simp_all

lemma main_no_component:
  assumes "readPDB_gauss L (molecule a) = Return m0"
    and "compute_orientation L m0 = Return (info, m1)"
    and "correctNormals L m1 = Return m2"
    and "splitSurfaces L m2 = Return []"
  shows "main L a w =
     (Raise IndexError,
      w\<lparr>stdout := stdout w @ [Orientation_report (fst info) (fst (snd info)) (snd (snd info))],
        calls := calls w @ [(ReadPDB_gauss (molecule a), Returned), (Compute_orientation, Returned),
          (CorrectNormals, Returned), (SplitSurfaces, Returned)]\<rparr>)"
proof -
  have "surface_construction L a w =
     (Raise IndexError,
      w\<lparr>stdout := stdout w @ [Orientation_report (fst info) (fst (snd info)) (snd (snd info))],
        calls := calls w @ [(ReadPDB_gauss (molecule a), Returned), (Compute_orientation, Returned),
          (CorrectNormals, Returned), (SplitSurfaces, Returned)]\<rparr>)"
    using assms
    by (simp add: surface_construction_def select_component_def print_volumes_def prog_defs
        case_prod_beta)
  then show ?thesis
    by (simp add: main_def bnd_def)
qed

text \<open>
  C9. When the component split returns an empty list, the run ends with IndexError at
  \<^verbatim>\<open>meshes[0]\<close>: nothing is called after \<^verbatim>\<open>splitSurfaces\<close> and no file is written. In every
  run, every call but the last has returned, and when the last call has not returned, the
  run has ended exactly as this call did: no failure is caught or turned into another.
\<close>

theorem failures_uncaught:
  "(readPDB_gauss L (molecule a) = Return m0 \<and> compute_orientation L m0 = Return (info, m1) \<and>
    correctNormals L m1 = Return m2 \<and> splitSurfaces L m2 = Return [] \<longrightarrow>
      fst (main L a w) = Raise IndexError \<and>
      calls (snd (main L a w)) = calls w @ [(ReadPDB_gauss (molecule a), Returned),
        (Compute_orientation, Returned), (CorrectNormals, Returned), (SplitSurfaces, Returned)] \<and>
      files (snd (main L a w)) = files w) \<and>
   (main L a w = (r, w') \<longrightarrow>
      (\<exists>cs. calls w' = calls w @ cs \<and> uncaught (outcome_of r) cs))"
proof (intro conjI impI)
  assume run: "main L a w = (r, w')"
  from logsD[OF logs_main_uncaught run]
  show "\<exists>cs. calls w' = calls w @ cs \<and> uncaught (outcome_of r) cs"
    by blast
next
  assume "readPDB_gauss L (molecule a) = Return m0 \<and> compute_orientation L m0 = Return (info, m1) \<and>
    correctNormals L m1 = Return m2 \<and> splitSurfaces L m2 = Return []"
  then have run: "main L a w =
     (Raise IndexError,
      w\<lparr>stdout := stdout w @ [Orientation_report (fst info) (fst (snd info)) (snd (snd info))],
        calls := calls w @ [(ReadPDB_gauss (molecule a), Returned), (Compute_orientation, Returned),
          (CorrectNormals, Returned), (SplitSurfaces, Returned)]\<rparr>)"
    by (simp add: main_no_component)
  show "fst (main L a w) = Raise IndexError"
    by (simp add: run)
  show "calls (snd (main L a w)) = calls w @ [(ReadPDB_gauss (molecule a), Returned),
        (Compute_orientation, Returned), (CorrectNormals, Returned), (SplitSurfaces, Returned)]"
    by (simp add: run)
  show "files (snd (main L a w)) = files w"
    by (simp add: run)
qed

text \<open>
  On the sample environment: with a split that reports no component the run raises
  IndexError after four calls; with a viewer that is never closed the run blocks in
  \<^verbatim>\<open>show\<close>, its last call.
\<close>

theorem failures_uncaught_witness:
  "splitSurfaces (sample_library\<lparr>splitSurfaces := \<lambda>m. Return []\<rparr>) (sample_mesh [1, 10, 11, 12]) =
     Return [] \<and>
   fst (main (sample_library\<lparr>splitSurfaces := \<lambda>m. Return []\<rparr>) (sample_args 1) empty_world) =
     Raise IndexError \<and>
   length (calls (snd (main (sample_library\<lparr>splitSurfaces := \<lambda>m. Return []\<rparr>) (sample_args 1)
     empty_world))) = 4 \<and>
   fst (main (sample_library\<lparr>show_window := \<lambda>p. Blocked\<rparr>) (sample_args 1) empty_world) =
     Blocked \<and>
   last (calls (snd (main (sample_library\<lparr>show_window := \<lambda>p. Blocked\<rparr>) (sample_args 1)
     empty_world))) = (Show, NeverReturned) \<and>
   uncaught NeverReturned (calls (snd (main (sample_library\<lparr>show_window := \<lambda>p. Blocked\<rparr>)
     (sample_args 1) empty_world)))"
proof -
  let ?L = "sample_library\<lparr>splitSurfaces := \<lambda>m. Return []\<rparr>"
  let ?B = "sample_library\<lparr>show_window := \<lambda>p. Blocked\<rparr>"
  let ?m = "sample_mesh [1, 10, 11, 12]"
  have pre: "readPDB_gauss ?L (molecule (sample_args 1)) = Return ?m \<and>
      compute_orientation ?L ?m = Return ((2, True, True), ?m) \<and>
      correctNormals ?L ?m = Return ?m \<and> splitSurfaces ?L ?m = Return []"
    by (simp add: sample_library_def)
  note no_component = failures_uncaught[of ?L "sample_args 1" ?m "(2, True, True)" ?m ?m
      empty_world "Return ()" empty_world, THEN conjunct1, rule_format, OF pre]
  from no_component have a: "fst (main ?L (sample_args 1) empty_world) = Raise IndexError"
    by (rule conjunct1)
  from no_component have "calls (snd (main ?L (sample_args 1) empty_world)) =
      calls empty_world @ [(ReadPDB_gauss (molecule (sample_args 1)), Returned),
        (Compute_orientation, Returned), (CorrectNormals, Returned), (SplitSurfaces, Returned)]"
    by (rule conjunct2[THEN conjunct1])
  then have b: "length (calls (snd (main ?L (sample_args 1) empty_world))) = 4"
    by (simp add: empty_world_def)
  define W where "W = snd (main ?B (sample_args 1) empty_world)"
  have run: "main ?B (sample_args 1) empty_world = (Blocked, W)"
    by (simp add: W_def sample_main_blocked)
  note blocked = failures_uncaught[of ?B "sample_args 1" ?m "(2, True, True)" ?m ?m
      empty_world Blocked W, THEN conjunct2, rule_format, OF run]
  then have "\<exists>cs. calls W = calls empty_world @ cs \<and> uncaught NeverReturned cs"
    by simp
  then have c: "uncaught NeverReturned (calls W)"
    by (auto simp: empty_world_def)
  have d: "last (calls W) = (Show, NeverReturned)"
    by (simp add: W_def sample_main_blocked)
  have e: "splitSurfaces ?L ?m = Return []"
    by (simp add: pre)
  have f: "fst (main ?B (sample_args 1) empty_world) = Blocked"
    by (simp add: run)
  from e a b f d c show ?thesis
    unfolding W_def by (intro conjI)
qed

section \<open>The viewer and the output\<close>

lemma written_after_show_mono:
  "written_after_show b cs \<Longrightarrow> b \<longrightarrow> b' \<Longrightarrow> written_after_show b' cs"
proof (induction cs arbitrary: b b')
  case Nil
  then show ?case by simp
next
  case (Cons x cs)
  obtain c oc where x: "x = (c, oc)"
    by (cases x)
  from Cons.prems have head: "case c of Create_pdb_from_points name \<Rightarrow> b' | _ \<Rightarrow> True"
    by (cases c) (simp_all add: x)
  from Cons.prems have "written_after_show (b \<or> (c = Show \<and> oc = Returned)) cs"
    by (simp add: x)
  moreover from Cons.prems(2) have
    "(b \<or> (c = Show \<and> oc = Returned)) \<longrightarrow> (b' \<or> (c = Show \<and> oc = Returned))"
    by blast
  ultimately have "written_after_show (b' \<or> (c = Show \<and> oc = Returned)) cs"
    by (rule Cons.IH)
  with head show ?case
    by (simp add: x)
qed

lemma written_after_show_no_pdbs:
  "written_pdbs cs = [] \<Longrightarrow> written_after_show b cs"
proof (induction cs arbitrary: b)
  case Nil
  then show ?case by simp
next
  case (Cons x cs)
  obtain c oc where x: "x = (c, oc)"
    by (cases x)
  from Cons.prems have "(case c of Create_pdb_from_points name \<Rightarrow> [name] | _ \<Rightarrow> []) = []"
    and rest: "written_pdbs cs = []"
    by (simp_all add: x written_pdbs_Cons)
  then have "case c of Create_pdb_from_points name \<Rightarrow> b | _ \<Rightarrow> True"
    by (cases c) simp_all
  with Cons.IH[OF rest] show ?case
    by (simp add: x)
qed

lemma written_after_show_append:
  "written_after_show b cs1 \<Longrightarrow> written_after_show False cs2 \<Longrightarrow>
   written_after_show b (cs1 @ cs2)"
proof (induction cs1 arbitrary: b)
  case Nil
  from Nil(2) have "written_after_show b cs2"
    by (rule written_after_show_mono) simp
  then show ?case by simp
next
  case (Cons x cs1)
  obtain c oc where x: "x = (c, oc)"
    by (cases x)
  from Cons.prems Cons.IH show ?case
    by (simp add: x)
qed

lemma written_after_show_then_write:
  "(Show, Returned) \<in> set cs \<or> b \<Longrightarrow> written_pdbs cs = [] \<Longrightarrow>
   written_after_show b (cs @ [(Create_pdb_from_points name, oc)])"
proof (induction cs arbitrary: b)
  case Nil
  then show ?case by simp
next
  case (Cons x cs)
  obtain c oc' where x: "x = (c, oc')"
    by (cases x)
  from Cons.prems have "(case c of Create_pdb_from_points name \<Rightarrow> [name] | _ \<Rightarrow> []) = []"
    and rest: "written_pdbs cs = []"
    by (simp_all add: x written_pdbs_Cons)
  then have head: "case c of Create_pdb_from_points name \<Rightarrow> b | _ \<Rightarrow> True"
    by (cases c) simp_all
  from Cons.prems(1) have "(Show, Returned) \<in> set cs \<or> (b \<or> (c = Show \<and> oc' = Returned))"
    by (auto simp: x)
  from Cons.IH[OF this rest] head show ?case
    by (simp add: x)
qed

lemma no_show_no_pdbs:
  "written_after_show False cs \<Longrightarrow> (Show, Returned) \<notin> set cs \<Longrightarrow> written_pdbs cs = []"
proof (induction cs)
  case Nil
  then show ?case by (simp add: written_pdbs_Nil)
next
  case (Cons x cs)
  obtain c oc where x: "x = (c, oc)"
    by (cases x)
  from Cons.prems have no: "\<not> (c = Show \<and> oc = Returned)"
    by (auto simp: x)
  with Cons.prems have head: "case c of Create_pdb_from_points name \<Rightarrow> False | _ \<Rightarrow> True"
    and rest: "written_after_show False cs"
    by (simp_all add: x)
  from head have "(case c of Create_pdb_from_points name \<Rightarrow> [name] | _ \<Rightarrow> []) = []"
    by (cases c) simp_all
  with Cons.IH[OF rest] Cons.prems(2) show ?case
    by (simp add: x written_pdbs_Cons)
qed

lemma written_files_Nil: "written_files [] = []"
  by (simp add: written_files_def)

lemma written_files_Cons:
  "written_files ((c, oc) # cs) =
     (if oc = Returned
      then (case c of WriteOBJ name \<Rightarrow> [name] | Create_pdb_from_points name \<Rightarrow> [name] | _ \<Rightarrow> [])
      else []) @ written_files cs"
  by (simp add: written_files_def)

lemmas written_files_simps = written_files_append written_files_Nil written_files_Cons

lemma composable_early:
  "composable (\<lambda>oc cs. written_pdbs cs = [] \<and> set (written_files cs) \<subseteq> S)"
  by (simp add: composable_def written_pdbs_simps written_files_simps)

text \<open>
  Up to and including the viewer, the script calls \<^verbatim>\<open>create_pdb_from_points\<close> nowhere and
  writes no file but the \<^verbatim>\<open>.obj\<close> file.
\<close>

lemma logs_early_stages:
  "logs (\<lambda>oc cs. written_pdbs cs = [] \<and> set (written_files cs) \<subseteq> {path_stem L (molecule a) @ ''.obj''})
     (surface_construction L a)"
  "logs (\<lambda>oc cs. written_pdbs cs = [] \<and> set (written_files cs) \<subseteq> {path_stem L (molecule a) @ ''.obj''})
     (initial_smoothing L mesh)"
  "logs (\<lambda>oc cs. written_pdbs cs = [] \<and> set (written_files cs) \<subseteq> {path_stem L (molecule a) @ ''.obj''})
     (refinement_loop L mesh)"
  "logs (\<lambda>oc cs. written_pdbs cs = [] \<and> set (written_files cs) \<subseteq> {path_stem L (molecule a) @ ''.obj''})
     (export_obj L a mesh)"
  "logs (\<lambda>oc cs. written_pdbs cs = [] \<and> set (written_files cs) \<subseteq> {path_stem L (molecule a) @ ''.obj''})
     (decimation L name)"
  "logs (\<lambda>oc cs. written_pdbs cs = [] \<and> set (written_files cs) \<subseteq> {path_stem L (molecule a) @ ''.obj''})
     (expansion L d shell)"
  "logs (\<lambda>oc cs. written_pdbs cs = [] \<and> set (written_files cs) \<subseteq> {path_stem L (molecule a) @ ''.obj''})
     (resampling L n shell)"
  "logs (\<lambda>oc cs. written_pdbs cs = [] \<and> set (written_files cs) \<subseteq> {path_stem L (molecule a) @ ''.obj''})
     (visualization L expanded_mesh shell)"
  unfolding script_defs Let_def case_prod_beta
  by (intro logs_intros logs_ext logs_write_call composable_early;
      auto simp: written_pdbs_simps written_files_simps)+

lemma logs_Return_also:
  assumes m: "logs Q m"
    and ret: "\<And>w x w'. m w = (Return x, w') \<Longrightarrow> \<exists>cs. calls w' = calls w @ cs \<and> R cs"
  shows "logs (\<lambda>oc cs. Q oc cs \<and> (oc = Returned \<longrightarrow> R cs)) m"
proof (rule logsI)
  fix w r w'
  assume run: "m w = (r, w')"
  from logsD[OF m run] obtain cs where
    cs: "calls w' = calls w @ cs" "Q (outcome_of r) cs"
      "\<forall>name. name \<notin> set (written_files cs) \<longrightarrow> files w' name = files w name"
    by blast
  have "outcome_of r = Returned \<longrightarrow> R cs"
  proof
    assume "outcome_of r = Returned"
    then obtain x where "r = Return x"
      by (cases r) simp_all
    with ret run obtain cs' where "calls w' = calls w @ cs'" "R cs'"
      by blast
    with cs(1) show "R cs"
      by simp
  qed
  with cs show "\<exists>cs. calls w' = calls w @ cs \<and>
      (Q (outcome_of r) cs \<and> (outcome_of r = Returned \<longrightarrow> R cs)) \<and>
      (\<forall>name. name \<notin> set (written_files cs) \<longrightarrow> files w' name = files w name)"
    by blast
qed

lemma logs_show_then_write:
  "logs (\<lambda>oc cs. written_after_show False cs \<and> length (written_pdbs cs) \<le> 1 \<and>
        set (written_files cs) \<subseteq> {path_stem L (molecule a) @ ''.obj''} \<union> set (written_pdbs cs))
     (bnd (visualization L expanded_mesh shell) (\<lambda>_. write_swarms L a shell))"
proof (rule logs_seq)
  show "logs (\<lambda>oc cs. (written_pdbs cs = [] \<and>
          set (written_files cs) \<subseteq> {path_stem L (molecule a) @ ''.obj''}) \<and>
        (oc = Returned \<longrightarrow> (Show, Returned) \<in> set cs))
      (visualization L expanded_mesh shell)"
  proof (rule logs_Return_also[OF logs_early_stages(8)])
    fix w x w'
    assume "visualization L expanded_mesh shell w = (Return x, w')"
    from visualization_Return[OF this]
    show "\<exists>cs. calls w' = calls w @ cs \<and> (Show, Returned) \<in> set cs"
      by simp
  qed
  show "\<And>x. logs (\<lambda>oc cs. \<exists>name oc'. cs = [(Create_pdb_from_points name, oc')])
      (write_swarms L a shell)"
    unfolding write_swarms_def Let_def
    by (rule logs_write_call) simp_all
next
  fix oc :: outcome and cs1 cs2 :: "(call \<times> outcome) list"
  assume a: "(written_pdbs cs1 = [] \<and>
      set (written_files cs1) \<subseteq> {path_stem L (molecule a) @ ''.obj''}) \<and>
      (Returned = Returned \<longrightarrow> (Show, Returned) \<in> set cs1)"
    and b: "\<exists>name oc'. cs2 = [(Create_pdb_from_points name, oc')]"
  from b obtain name oc' where cs2: "cs2 = [(Create_pdb_from_points name, oc')]"
    by blast
  from a have "written_after_show False (cs1 @ cs2)"
    unfolding cs2 by (intro written_after_show_then_write) simp_all
  with a show "written_after_show False (cs1 @ cs2) \<and> length (written_pdbs (cs1 @ cs2)) \<le> 1 \<and>
      set (written_files (cs1 @ cs2)) \<subseteq>
        {path_stem L (molecule a) @ ''.obj''} \<union> set (written_pdbs (cs1 @ cs2))"
    by (auto simp: cs2 written_pdbs_simps written_files_simps)
next
  fix oc :: outcome and cs :: "(call \<times> outcome) list"
  assume "(written_pdbs cs = [] \<and>
      set (written_files cs) \<subseteq> {path_stem L (molecule a) @ ''.obj''}) \<and>
      (oc = Returned \<longrightarrow> (Show, Returned) \<in> set cs)"
  then show "written_after_show False cs \<and> length (written_pdbs cs) \<le> 1 \<and>
      set (written_files cs) \<subseteq> {path_stem L (molecule a) @ ''.obj''} \<union> set (written_pdbs cs)"
    by (auto simp: written_after_show_no_pdbs)
qed

lemma logs_after_early:
  assumes "logs (\<lambda>oc cs. written_pdbs cs = [] \<and> set (written_files cs) \<subseteq> {obj}) m"
    and "\<And>x. logs (\<lambda>oc cs. written_after_show False cs \<and> length (written_pdbs cs) \<le> 1 \<and>
        set (written_files cs) \<subseteq> {obj} \<union> set (written_pdbs cs)) (f x)"
  shows "logs (\<lambda>oc cs. written_after_show False cs \<and> length (written_pdbs cs) \<le> 1 \<and>
        set (written_files cs) \<subseteq> {obj} \<union> set (written_pdbs cs)) (bnd m f)"
  using assms
proof (rule logs_seq)
  fix oc :: outcome and cs1 cs2 :: "(call \<times> outcome) list"
  assume a: "written_pdbs cs1 = [] \<and> set (written_files cs1) \<subseteq> {obj}"
    and b: "written_after_show False cs2 \<and> length (written_pdbs cs2) \<le> 1 \<and>
      set (written_files cs2) \<subseteq> {obj} \<union> set (written_pdbs cs2)"
  from a b have "written_after_show False (cs1 @ cs2)"
    by (simp add: written_after_show_append written_after_show_no_pdbs)
  with a b show "written_after_show False (cs1 @ cs2) \<and> length (written_pdbs (cs1 @ cs2)) \<le> 1 \<and>
      set (written_files (cs1 @ cs2)) \<subseteq> {obj} \<union> set (written_pdbs (cs1 @ cs2))"
    by (auto simp: written_pdbs_simps written_files_simps)
next
  fix oc :: outcome and cs :: "(call \<times> outcome) list"
  assume "written_pdbs cs = [] \<and> set (written_files cs) \<subseteq> {obj}"
  then show "written_after_show False cs \<and> length (written_pdbs cs) \<le> 1 \<and>
      set (written_files cs) \<subseteq> {obj} \<union> set (written_pdbs cs)"
    by (auto simp: written_after_show_no_pdbs)
qed

lemma logs_main_written_after_show:
  "logs (\<lambda>oc cs. written_after_show False cs \<and> length (written_pdbs cs) \<le> 1 \<and>
        set (written_files cs) \<subseteq> {path_stem L (molecule a) @ ''.obj''} \<union> set (written_pdbs cs))
     (main L a)"
  unfolding main_def case_prod_beta
  by (intro logs_show_then_write logs_after_early logs_early_stages)

text \<open>
  C8. In every run of the script, every call of \<^verbatim>\<open>create_pdb_from_points\<close> comes after a
  call of the plotter's \<^verbatim>\<open>show\<close> that has returned, and there is at most one such call;
  when \<^verbatim>\<open>show\<close> has not returned (the window is still open, or the viewer failed), the run
  has made no such call and the file \<^verbatim>\<open><stem>_swarms.pdb\<close> is as it was before the run.
\<close>

theorem swarms_written_after_show:
  assumes "main L a w = (r, w')"
  shows "\<exists>cs. calls w' = calls w @ cs \<and> written_after_show False cs \<and>
     length (written_pdbs cs) \<le> 1 \<and>
     ((Show, Returned) \<notin> set cs \<longrightarrow>
        written_pdbs cs = [] \<and>
        files w' (path_stem L (molecule a) @ ''_swarms.pdb'') =
          files w (path_stem L (molecule a) @ ''_swarms.pdb''))"
proof -
  from logsD[OF logs_main_written_after_show assms] obtain cs where
    cs: "calls w' = calls w @ cs" and order: "written_after_show False cs" and
    sole: "length (written_pdbs cs) \<le> 1" and
    written: "set (written_files cs) \<subseteq>
      {path_stem L (molecule a) @ ''.obj''} \<union> set (written_pdbs cs)" and
    frame: "\<forall>name. name \<notin> set (written_files cs) \<longrightarrow> files w' name = files w name"
    by blast
  have "written_pdbs cs = [] \<and>
      files w' (path_stem L (molecule a) @ ''_swarms.pdb'') =
        files w (path_stem L (molecule a) @ ''_swarms.pdb'')"
    if "(Show, Returned) \<notin> set cs"
  proof -
    from order that have none: "written_pdbs cs = []"
      by (rule no_show_no_pdbs)
    with written have "path_stem L (molecule a) @ ''_swarms.pdb'' \<notin> set (written_files cs)"
      by auto
    with frame none show ?thesis
      by simp
  qed
  with cs order sole show ?thesis
    by blast
qed

text \<open>
  On the sample environment: the run that returns has written \<^verbatim>\<open>1abc_swarms.pdb\<close> after
  \<^verbatim>\<open>show\<close> returned; the run whose viewer is never closed has not written it.
\<close>

theorem swarms_written_after_show_witness:
  "fst (main sample_library (sample_args 1) empty_world) = Return () \<and>
   written_after_show False (calls (snd (main sample_library (sample_args 1) empty_world))) \<and>
   (Show, Returned) \<in> set (calls (snd (main sample_library (sample_args 1) empty_world))) \<and>
   fst (main (sample_library\<lparr>show_window := \<lambda>p. Blocked\<rparr>) (sample_args 1) empty_world) =
     Blocked \<and>
   (Show, Returned) \<notin> set (calls (snd (main (sample_library\<lparr>show_window := \<lambda>p. Blocked\<rparr>)
     (sample_args 1) empty_world))) \<and>
   written_pdbs (calls (snd (main (sample_library\<lparr>show_window := \<lambda>p. Blocked\<rparr>)
     (sample_args 1) empty_world))) = [] \<and>
   files (snd (main (sample_library\<lparr>show_window := \<lambda>p. Blocked\<rparr>) (sample_args 1) empty_world))
     ''1abc_swarms.pdb'' = None"
proof -
  let ?B = "sample_library\<lparr>show_window := \<lambda>p. Blocked\<rparr>"
  define W where "W = snd (main sample_library (sample_args 1) empty_world)"
  have run: "main sample_library (sample_args 1) empty_world = (Return (), W)"
    by (simp add: W_def sample_main)
  from swarms_written_after_show[OF run] have a: "written_after_show False (calls W)"
    by (auto simp: empty_world_def)
  have b: "(Show, Returned) \<in> set (calls W)"
    by (simp add: W_def sample_main)
  define V where "V = snd (main ?B (sample_args 1) empty_world)"
  have blocked: "main ?B (sample_args 1) empty_world = (Blocked, V)"
    by (simp add: V_def sample_main_blocked)
  have stem: "path_stem sample_library (molecule (sample_args 1)) = ''1abc''"
    by (simp add: sample_defs posix_stem_def path_name_def)
  have c: "(Show, Returned) \<notin> set (calls V)"
    by (simp add: V_def sample_main_blocked)
  from swarms_written_after_show[OF blocked] c
  have d: "written_pdbs (calls V) = [] \<and> files V ''1abc_swarms.pdb'' = None"
    by (auto simp: empty_world_def stem)
  from a b c d show ?thesis
    by (simp add: run blocked)
qed

section \<open>Resampling\<close>




end
